theory Spec2Isabelle
  imports Main "HOL-Library.Sublist"
begin

section \<open>Strings as byte lists\<close>

text \<open>
  A Go \<open>string\<close> is a sequence of bytes and \<open>len\<close> counts bytes, so a string is a
  \<^typ>\<open>char list\<close> here.  The functions of package \<open>strings\<close> that the repository calls are
  written out on bytes.

  \<open>strings.ToLower\<close> has two paths.  On a string of ASCII bytes it moves the bytes \<open>A\<close> to
  \<open>Z\<close> to \<open>a\<close> to \<open>z\<close> and keeps every other byte.  On any other string it returns
  \<open>strings.Map(unicode.ToLower, s)\<close>, which decodes UTF-8 and maps each rune through the
  case tables of package \<open>unicode\<close> (the Kelvin sign U+212A becomes \<open>k\<close>, for one).  Those
  tables are not part of the repository: the second path is the parameter
  \<open>unicodeLower\<close> of everything that lower-cases a string.
\<close>

definition lowerByte :: "char \<Rightarrow> char" where
  "lowerByte c =
     (let n = (of_char c :: nat) in if 65 \<le> n \<and> n \<le> 90 then char_of (n + 32) else c)"

definition isASCII :: "string \<Rightarrow> bool" where
  "isASCII s \<longleftrightarrow> list_all (\<lambda>c. (of_char c :: nat) < 128) s"

definition ToLower :: "(string \<Rightarrow> string) \<Rightarrow> string \<Rightarrow> string" where
  "ToLower unicodeLower s = (if isASCII s then map lowerByte s else unicodeLower s)"

text \<open>\<open>strings.Index\<close>: the byte offset of the first occurrence, \<open>None\<close> for Go's \<open>-1\<close>.\<close>

fun Index :: "string \<Rightarrow> string \<Rightarrow> nat option" where
  "Index [] sub = (if sub = [] then Some 0 else None)"
| "Index (c # cs) sub =
     (if prefix sub (c # cs) then Some 0 else map_option Suc (Index cs sub))"

definition Contains :: "string \<Rightarrow> string \<Rightarrow> bool" where
  "Contains s sub = (Index s sub \<noteq> None)"

definition HasPrefix :: "string \<Rightarrow> string \<Rightarrow> bool" where
  "HasPrefix s p = prefix p s"

section \<open>Error classification of the Go backend\<close>

datatype ErrorTypeGo =
    ErrorTypeGoUnknown
  | ErrorTypeGoInfrastructure
  | ErrorTypeGoSyntax
  | ErrorTypeGoType
  | ErrorTypeGoLogic
  | ErrorTypeGoRuntime
  | ErrorTypeGoSuccess

definition infraPatterns :: "string list" where
  "infraPatterns =
     [''go.mod already exists'', ''cannot find package'', ''not in GOPATH'',
      ''invalid go.mod'', ''module not found'', ''go get'']"

definition syntaxPatterns :: "string list" where
  "syntaxPatterns =
     [''syntax error'', ''expected'', ''unexpected'', ''invalid operation'', ''unclosed'']"

definition typePatterns :: "string list" where
  "typePatterns =
     [''undefined'', ''type'', ''cannot use'', ''mismatched types'',
      ''wrong number of arguments'', ''not a function'']"

definition runtimePatterns :: "string list" where
  "runtimePatterns = [''panic'', ''fatal'', ''signal: segmentation'', ''runtime error'']"

text \<open>
  Each \<open>for _, pattern := range ...\<close> loop of \<open>classifyGoError\<close> returns at the first
  pattern whose lower-cased text occurs in the (already lower-cased) output.
\<close>

fun anyPattern :: "(string \<Rightarrow> string) \<Rightarrow> string \<Rightarrow> string list \<Rightarrow> bool" where
  "anyPattern unicodeLower output [] = False"
| "anyPattern unicodeLower output (pattern # rest) =
     (if Contains output (ToLower unicodeLower pattern) then True
      else anyPattern unicodeLower output rest)"

definition classifyGoError ::
  "(string \<Rightarrow> string) \<Rightarrow> string \<Rightarrow> string list \<Rightarrow> string list \<Rightarrow> ErrorTypeGo"
where
  "classifyGoError unicodeLower output compileErrors testErrors =
     (let output = ToLower unicodeLower output in
      if anyPattern unicodeLower output infraPatterns then ErrorTypeGoInfrastructure
      else if anyPattern unicodeLower output syntaxPatterns then ErrorTypeGoSyntax
      else if anyPattern unicodeLower output typePatterns then ErrorTypeGoType
      else if anyPattern unicodeLower output runtimePatterns then ErrorTypeGoRuntime
      else if length testErrors > 0 then ErrorTypeGoLogic
      else if length compileErrors > 0 then ErrorTypeGoType
      else ErrorTypeGoUnknown)"

section \<open>Extraction of code from a model response\<close>

subsection \<open>Library functions on strings\<close>

text \<open>
  \<open>strings.TrimSpace\<close> removes leading and trailing white space as \<open>unicode.IsSpace\<close>
  defines it: six ASCII bytes and the UTF-8 encodings of U+0085, U+00A0, U+1680,
  U+2000 to U+200A, U+2028, U+2029, U+202F, U+205F and U+3000.
\<close>

definition spaceRunes :: "string list" where
  "spaceRunes =
     [[CHR 0x09], [CHR 0x0A], [CHR 0x0B], [CHR 0x0C], [CHR 0x0D], [CHR 0x20],
      [CHR 0xC2, CHR 0x85], [CHR 0xC2, CHR 0xA0], [CHR 0xE1, CHR 0x9A, CHR 0x80]]
     @ map (\<lambda>b. [CHR 0xE2, CHR 0x80, b])
         [CHR 0x80, CHR 0x81, CHR 0x82, CHR 0x83, CHR 0x84, CHR 0x85, CHR 0x86, CHR 0x87,
          CHR 0x88, CHR 0x89, CHR 0x8A, CHR 0xA8, CHR 0xA9, CHR 0xAF]
     @ [[CHR 0xE2, CHR 0x81, CHR 0x9F], [CHR 0xE3, CHR 0x80, CHR 0x80]]"

text \<open>The byte length of the listed rune the text starts with, \<open>0\<close> when there is none.\<close>

fun leadingRune :: "string list \<Rightarrow> string \<Rightarrow> nat" where
  "leadingRune [] s = 0"
| "leadingRune (r # rs) s = (if prefix r s then length r else leadingRune rs s)"

function trimLeftRunes :: "string list \<Rightarrow> string \<Rightarrow> string" where
  "trimLeftRunes rs s =
     (if leadingRune rs s = 0 \<or> s = [] then s
      else trimLeftRunes rs (drop (leadingRune rs s) s))"
  by pat_completeness auto
termination
  by (relation "measure (\<lambda>(rs, s). length s)") auto

declare trimLeftRunes.simps [simp del]

definition TrimSpace :: "string \<Rightarrow> string" where
  "TrimSpace s = rev (trimLeftRunes (map rev spaceRunes) (rev (trimLeftRunes spaceRunes s)))"

text \<open>\<open>strings.Trim\<close> for a cutset of ASCII bytes (the repository passes one backtick).\<close>

definition Trim :: "string \<Rightarrow> string \<Rightarrow> string" where
  "Trim s cutset =
     rev (dropWhile (\<lambda>c. c \<in> set cutset) (rev (dropWhile (\<lambda>c. c \<in> set cutset) s)))"

lemma Index_Some_nonempty: "Index s sep = Some i \<Longrightarrow> sep \<noteq> [] \<Longrightarrow> s \<noteq> []"
  by (cases s) auto

text \<open>
  \<open>strings.Split\<close> for a separator that is not empty (the repository passes
  \<open>"package main"\<close>): cut at each occurrence, left to right.
\<close>

function Split :: "string \<Rightarrow> string \<Rightarrow> string list" where
  "Split s sep =
     (case Index s sep of
        None \<Rightarrow> [s]
      | Some m \<Rightarrow>
          if sep = [] then map (\<lambda>c. [c]) s
          else take m s # Split (drop (m + length sep) s) sep)"
  by pat_completeness auto
termination
  by (relation "measure (\<lambda>(s, sep). length s)") (auto dest: Index_Some_nonempty)

declare Split.simps [simp del]

text \<open>\<open>fmt.Sprintf("%d", n)\<close>.\<close>

function natDigits :: "nat \<Rightarrow> string" where
  "natDigits n =
     (if n < 10 then [char_of (48 + n)] else natDigits (n div 10) @ [char_of (48 + n mod 10)])"
  by pat_completeness auto
termination
  by (relation "measure (\<lambda>n. n)") auto

declare natDigits.simps [simp del]

definition itoa :: "int \<Rightarrow> string" where
  "itoa i = (if i < 0 then CHR ''-'' # natDigits (nat (- i)) else natDigits (nat i))"

subsection \<open>The regular expressions\<close>

text \<open>
  Two expressions find fenced blocks: \<open>(?s)```(?:[a-z]+)?\n(.*?)```\<close> (any tag of lower-case
  letters, or none) and \<open>(?s)```go\n(.*?)```\<close>.  Both are matched on bytes: an opening fence,
  then the shortest text up to the next three backticks.
\<close>

datatype fencePattern = AnyTag | GoTag

definition lowerLetter :: "char \<Rightarrow> bool" where
  "lowerLetter c \<longleftrightarrow> 97 \<le> (of_char c :: nat) \<and> (of_char c :: nat) \<le> 122"

text \<open>The text after the opening fence when the text starts with one.\<close>

fun openFence :: "fencePattern \<Rightarrow> string \<Rightarrow> string option" where
  "openFence AnyTag s =
     (if prefix ''```'' s then
        (case dropWhile lowerLetter (drop 3 s) of
           [] \<Rightarrow> None
         | c # r \<Rightarrow> if c = CHR 0x0A then Some r else None)
      else None)"
| "openFence GoTag s =
     (if prefix (''```go'' @ [CHR 0x0A]) s then Some (drop 6 s) else None)"

text \<open>\<open>(.*?)```\<close>: the text before the first three backticks, and the text after them.\<close>

fun splitFence :: "string \<Rightarrow> (string \<times> string) option" where
  "splitFence [] = None"
| "splitFence (c # cs) =
     (if prefix ''```'' (c # cs) then Some ([], drop 3 (c # cs))
      else map_option (\<lambda>(content, rest). (c # content, rest)) (splitFence cs))"

lemma openFence_shorter: "openFence pat s = Some body \<Longrightarrow> length body < length s"
proof (cases pat)
  case AnyTag
  assume a: "openFence pat s = Some body"
  have "length (dropWhile lowerLetter (drop 3 s)) \<le> length (drop 3 s)"
    by (rule length_dropWhile_le)
  with a AnyTag show ?thesis
    by (auto split: if_splits list.splits)
next
  case GoTag
  assume "openFence pat s = Some body"
  with GoTag show ?thesis
    by (auto split: if_splits simp: prefix_def)
qed

lemma splitFence_shorter: "splitFence s = Some (content, rest) \<Longrightarrow> length rest < length s"
proof (induction s arbitrary: content)
  case Nil
  then show ?case by simp
next
  case (Cons c cs)
  then show ?case by (fastforce split: if_splits)
qed

text \<open>
  \<open>FindAllStringSubmatch(response, -1)\<close>, keeping group 1 of each match: the leftmost match
  is taken, and the search goes on after its closing fence.
\<close>

function FindAllStringSubmatch :: "fencePattern \<Rightarrow> string \<Rightarrow> string list" where
  "FindAllStringSubmatch pat [] = []"
| "FindAllStringSubmatch pat (c # cs) =
     (case openFence pat (c # cs) of
        None \<Rightarrow> FindAllStringSubmatch pat cs
      | Some body \<Rightarrow>
          (case splitFence body of
             None \<Rightarrow> FindAllStringSubmatch pat cs
           | Some (content, rest) \<Rightarrow> content # FindAllStringSubmatch pat rest))"
  by pat_completeness auto
termination
proof (relation "measure (\<lambda>(pat, s). length s)", goal_cases)
  case 1
  show ?case by simp
next
  case (2 pat c cs)
  show ?case by simp
next
  case (3 pat c cs body)
  show ?case by simp
next
  case (4 pat c cs body x content rest)
  then have "length rest < length body" and "length body < length (c # cs)"
    by (auto dest: splitFence_shorter openFence_shorter)
  then show ?case by simp
qed

text \<open>
  \<open>(?m)^func\s+Test\<close>: at the start of the text or after a newline, \<open>func\<close>, at least one
  of the bytes tab, newline, form feed, carriage return and space, then \<open>Test\<close>.
\<close>

definition regexSpace :: "char \<Rightarrow> bool" where
  "regexSpace c \<longleftrightarrow> c \<in> set [CHR 0x09, CHR 0x0A, CHR 0x0C, CHR 0x0D, CHR 0x20]"

definition markerHere :: "string \<Rightarrow> bool" where
  "markerHere s \<longleftrightarrow>
     prefix ''func'' s \<and>
     length (dropWhile regexSpace (drop 4 s)) < length (drop 4 s) \<and>
     prefix ''Test'' (dropWhile regexSpace (drop 4 s))"

fun findMarker :: "bool \<Rightarrow> string \<Rightarrow> nat option" where
  "findMarker lineStart [] = None"
| "findMarker lineStart (c # cs) =
     (if lineStart \<and> markerHere (c # cs) then Some 0
      else map_option Suc (findMarker (c = CHR 0x0A) cs))"

text \<open>\<open>FindStringIndex\<close> of that expression: \<open>loc[0]\<close>, or \<open>None\<close> for \<open>nil\<close>.\<close>

definition FindStringIndex :: "string \<Rightarrow> nat option" where
  "FindStringIndex response = findMarker True response"

subsection \<open>The five strategies\<close>

text \<open>A strategy returns \<open>Inl\<close> of the error text, or \<open>Inr\<close> of main and test code.\<close>

definition StandardFormatStrategy_Extract :: "string \<Rightarrow> string + string \<times> string" where
  "StandardFormatStrategy_Extract response =
     (let matches = FindAllStringSubmatch AnyTag response in
      if length matches < 2 then
        Inl (''standard_format: expected at least 2 code blocks, found ''
             @ itoa (int (length matches)))
      else
        let mainCode = TrimSpace (matches ! 0);
            testCode = TrimSpace (matches ! 1)
        in if length mainCode = 0 \<or> length testCode = 0 then
             Inl ''standard_format: empty code blocks''
           else Inr (mainCode, testCode))"

definition PackageMainStrategy_Extract :: "string \<Rightarrow> string + string \<times> string" where
  "PackageMainStrategy_Extract response =
     (let parts = Split response ''package main'' in
      if length parts < 3 then
        Inl (''package_main_split: expected at least 2 'package main' declarations, found ''
             @ itoa (int (length parts) - 1))
      else
        let mainCode = TrimSpace (''package main'' @ parts ! 1);
            testCode = TrimSpace (''package main'' @ parts ! 2);
            mainCode = Trim mainCode ''`'';
            testCode = Trim testCode ''`'';
            mainCode = TrimSpace mainCode;
            testCode = TrimSpace testCode
        in if length mainCode < 50 \<or> length testCode < 50 then
             Inl ''package_main_split: code blocks too small''
           else Inr (mainCode, testCode))"

definition testHeader :: string where
  "testHeader = ''package main'' @ [CHR 0x0A] @ ''import \"testing\"'' @ [CHR 0x0A]"

definition TestMarkerStrategy_Extract :: "string \<Rightarrow> string + string \<times> string" where
  "TestMarkerStrategy_Extract response =
     (case FindStringIndex response of
        None \<Rightarrow> Inl ''test_marker_split: no 'func Test' marker found''
      | Some loc \<Rightarrow>
          let mainCode = TrimSpace (take loc response);
              testCode = TrimSpace (drop loc response);
              mainCode = (if \<not> HasPrefix mainCode ''package''
                          then ''package main'' @ [CHR 0x0A] @ mainCode else mainCode);
              testCode = (if \<not> HasPrefix testCode ''package''
                          then testHeader @ testCode else testCode);
              mainCode = Trim mainCode ''`'';
              testCode = Trim testCode ''`''
          in if length mainCode < 30 \<or> length testCode < 30 then
               Inl ''test_marker_split: code blocks too small''
             else Inr (mainCode, testCode))"

definition LanguageTagStrategy_Extract :: "string \<Rightarrow> string + string \<times> string" where
  "LanguageTagStrategy_Extract response =
     (let matches = FindAllStringSubmatch GoTag response in
      if length matches < 2 then
        Inl (''language_tag_split: expected at least 2 'go' code blocks, found ''
             @ itoa (int (length matches)))
      else
        let mainCode = TrimSpace (matches ! 0);
            testCode = TrimSpace (matches ! 1)
        in if length mainCode = 0 \<or> length testCode = 0 then
             Inl ''language_tag_split: empty code blocks''
           else Inr (mainCode, testCode))"

text \<open>
  In \<open>SingleFileStrategy.Extract\<close> the test \<open>strings.Contains(code, "func Test")\<close> and the
  \<open>strings.Index\<close> that follows it are one \<open>case\<close> on \<^const>\<open>Index\<close>.
\<close>

definition SingleFileStrategy_Extract :: "string \<Rightarrow> string + string \<times> string" where
  "SingleFileStrategy_Extract response =
     (let matches = FindAllStringSubmatch AnyTag response in
      if length matches = 0 then
        (if length response > 50 then Inr (TrimSpace response, [])
         else Inl ''single_file_fallback: no code found'')
      else
        let code = TrimSpace (matches ! 0) in
        case Index code ''func Test'' of
          Some idx \<Rightarrow>
            let main = TrimSpace (take idx code);
                test = TrimSpace (drop idx code);
                test = (if \<not> HasPrefix test ''package'' then testHeader @ test else test)
            in Inr (main, test)
        | None \<Rightarrow> Inr (code, []))"

subsection \<open>The extractor\<close>

datatype ExtractionStrategy =
    StandardFormatStrategy
  | LanguageTagStrategy
  | TestMarkerStrategy
  | PackageMainStrategy
  | SingleFileStrategy

fun Name :: "ExtractionStrategy \<Rightarrow> string" where
  "Name StandardFormatStrategy = ''standard_format''"
| "Name PackageMainStrategy = ''package_main_split''"
| "Name TestMarkerStrategy = ''test_marker_split''"
| "Name LanguageTagStrategy = ''language_tag_split''"
| "Name SingleFileStrategy = ''single_file_fallback''"

fun Extract :: "ExtractionStrategy \<Rightarrow> string \<Rightarrow> string + string \<times> string" where
  "Extract StandardFormatStrategy = StandardFormatStrategy_Extract"
| "Extract PackageMainStrategy = PackageMainStrategy_Extract"
| "Extract TestMarkerStrategy = TestMarkerStrategy_Extract"
| "Extract LanguageTagStrategy = LanguageTagStrategy_Extract"
| "Extract SingleFileStrategy = SingleFileStrategy_Extract"

text \<open>An \<open>Extractor\<close> is its list of strategies; \<open>NewExtractor\<close> builds the only one in use.\<close>

definition NewExtractor :: "ExtractionStrategy list" where
  "NewExtractor =
     [StandardFormatStrategy, LanguageTagStrategy, TestMarkerStrategy, PackageMainStrategy,
      SingleFileStrategy]"

text \<open>The loop of \<open>Extractor.Extract\<close>, with \<open>lastErr\<close> as an accumulator.\<close>

fun tryStrategies ::
  "ExtractionStrategy list \<Rightarrow> string \<Rightarrow> string option \<Rightarrow> string + string \<times> string \<times> string"
where
  "tryStrategies [] response lastErr =
     Inl (''all extraction strategies failed; last error: ''
          @ (case lastErr of None \<Rightarrow> ''<nil>'' | Some e \<Rightarrow> e))"
| "tryStrategies (strat # rest) response lastErr =
     (case Extract strat response of
        Inr (main, test) \<Rightarrow> Inr (main, test, Name strat)
      | Inl err \<Rightarrow> tryStrategies rest response (Some err))"

definition Extractor_Extract ::
  "ExtractionStrategy list \<Rightarrow> string \<Rightarrow> string + string \<times> string \<times> string"
where
  "Extractor_Extract e response = tryStrategies e response None"

definition ExtractWithFallback ::
  "ExtractionStrategy list \<Rightarrow> string \<Rightarrow> string \<times> string \<times> string"
where
  "ExtractWithFallback e response =
     (case Extractor_Extract e response of
        Inr (main, test, strategy) \<Rightarrow> (main, test, strategy)
      | Inl err \<Rightarrow>
          let matches = FindAllStringSubmatch AnyTag response in
          if length matches > 0 then
            (TrimSpace (matches ! 0),
             (if length matches > 1 then TrimSpace (matches ! 1) else []),
             ''emergency_fallback'')
          else (TrimSpace response, [], ''raw_response''))"


section \<open>The job controller\<close>

subsection \<open>Core types\<close>

datatype ErrorType =
    ErrorTypeUnknown
  | ErrorTypeInfrastructure
  | ErrorTypeSyntax
  | ErrorTypeType
  | ErrorTypeLogic
  | ErrorTypeRuntime
  | ErrorTypeSuccess

fun ErrorType_String :: "ErrorType \<Rightarrow> string" where
  "ErrorType_String ErrorTypeInfrastructure = ''infrastructure''"
| "ErrorType_String ErrorTypeSyntax = ''syntax''"
| "ErrorType_String ErrorTypeType = ''type''"
| "ErrorType_String ErrorTypeLogic = ''logic''"
| "ErrorType_String ErrorTypeRuntime = ''runtime''"
| "ErrorType_String ErrorTypeSuccess = ''success''"
| "ErrorType_String ErrorTypeUnknown = ''unknown''"

text \<open>
  Go's \<open>int\<close> and \<open>time.Duration\<close> are \<^typ>\<open>int\<close>: the controller only counts iterations
  and compares sizes and durations, far from the 64-bit range.
\<close>

record CompilationResult =
  Success :: bool
  ExitCode :: int
  CompileErrors :: "string list"
  TestErrors :: "string list"
  Output :: string
  ErrorType :: ErrorType
  ExecutionTime :: int

record ExecutionMetrics =
  IterationCount :: int
  TotalTime :: int
  PromptSizes :: "int list"
  LLMResponseTimes :: "int list"
  LastErrorType :: ErrorType
  SameErrorCount :: int
  ExtractedLanguages :: "string list"

record LLMContext =
  ConversationTokens :: "int list"
  PromptHistory :: "string list"
  ErrorHistory :: "ErrorType list"
  AttemptCount :: int
  LastErrorMessage :: string

text \<open>
  \<open>ExecutionJob\<close> without \<open>Ctx\<close> and \<open>Cancel\<close>: what the controller observes of the
  context is part of the environment below.
\<close>

record ExecutionJob =
  ID :: string
  Language :: string
  UserPrompt :: string
  Model :: string
  MaxIterations :: int
  Timeout :: int
  Status :: string
  StartTime :: int
  LLMCtx :: LLMContext
  Metrics :: ExecutionMetrics
  FinalResult :: "CompilationResult option"
  AbortReason :: string

definition MaxPromptSize :: int where
  "MaxPromptSize = 50 * 1024"

definition SameErrorThreshold :: nat where
  "SameErrorThreshold = 3"

subsection \<open>The prompt builder\<close>

definition goFormatInstructions :: string where
  "goFormatInstructions =
     ''\<newline>IMPORTANT: Generate Go code in this exact format:\<newline>''
     @ ''- Two code blocks separated by a blank line\<newline>''
     @ ''- First block: package main with main() function and helper functions\<newline>''
     @ ''- Second block: package main with import \"testing\" and Test* functions\<newline>''
     @ ''- Use ONLY \"package main\" in both blocks\<newline>''
     @ ''- Provide code only, no explanations\<newline>''"

definition pythonFormatInstructions :: string where
  "pythonFormatInstructions =
     ''\<newline>IMPORTANT: Generate Python code in this exact format:\<newline>''
     @ ''- Two code blocks separated by a blank line\<newline>''
     @ ''- First block: main code with functions and main() execution\<newline>''
     @ ''- Second block: import unittest or pytest and test functions\<newline>''
     @ ''- Provide code only, no explanations\<newline>''"

definition cppFormatInstructions :: string where
  "cppFormatInstructions =
     ''\<newline>IMPORTANT: Generate C++ code in this exact format:\<newline>''
     @ ''- Two code blocks separated by a blank line\<newline>''
     @ ''- First block: main.cpp with function implementations and main()\<newline>''
     @ ''- Second block: test functions using assert or gtest\<newline>''
     @ ''- Include necessary #include statements\<newline>''
     @ ''- Provide code only, no explanations\<newline>''"

text \<open>The \<open>switch job.Language\<close> of \<open>buildPrompt\<close>.\<close>

definition formatInstructions :: "string \<Rightarrow> string" where
  "formatInstructions language =
     (if language = ''go'' then goFormatInstructions
      else if language = ''python'' then pythonFormatInstructions
      else if language = ''cpp'' then cppFormatInstructions
      else [])"

definition truncate_string :: "string \<Rightarrow> nat \<Rightarrow> string" where
  "truncate_string s maxLen = (if length s \<le> maxLen then s else take maxLen s @ ''...'')"

definition errorFeedback :: "ExecutionJob \<Rightarrow> int \<Rightarrow> string" where
  "errorFeedback job iteration =
     (let lastError = LastErrorType (Metrics job);
          lastMsg = LastErrorMessage (LLMCtx job)
      in ''\<newline>\<newline>=== ERROR FEEDBACK FROM ITERATION ''
         @ itoa (iteration - 1)
         @ '' ===\<newline>''
         @ (''Error Type: '' @ ErrorType_String lastError @ ''\<newline>'')
         @ (''Error Message: '' @ truncate_string lastMsg 500 @ ''\<newline>'')
         @ ''Please fix the error and regenerate the code.\<newline>'')"

definition buildPrompt :: "ExecutionJob \<Rightarrow> int \<Rightarrow> string \<times> int" where
  "buildPrompt job iteration =
     (let prompt = UserPrompt job @ formatInstructions (Language job);
          prompt = (if iteration > 1 \<and> length (ErrorHistory (LLMCtx job)) > 0
                    then prompt @ errorFeedback job iteration else prompt)
      in (prompt, int (length prompt)))"

subsection \<open>The environment\<close>

text \<open>
  What the controller does not decide is read from a \<open>World\<close>, by iteration index (the
  loop makes each call at most once per iteration): whether \<open>job.Ctx\<close> is done at the
  check, the value of \<open>time.Since(job.StartTime)\<close> at the check, the answer of
  \<open>GetOllamaResponse\<close> (response, updated context, error) and its latency, and the answer
  of \<open>compileLanguage\<close> (result pointer and error, \<open>None\<close> for \<open>nil\<close>).
\<close>

record World =
  timeNow :: int
  ctxDone :: "int \<Rightarrow> bool"
  sinceStart :: "int \<Rightarrow> int"
  GetOllamaResponse :: "int \<Rightarrow> string \<Rightarrow> int list \<Rightarrow> string \<Rightarrow> string \<times> int list \<times> string option"
  llmTime :: "int \<Rightarrow> int"
  compileLanguage ::
    "int \<Rightarrow> string \<Rightarrow> string \<Rightarrow> string \<Rightarrow> CompilationResult option \<times> string option"

text \<open>
  \<open>compileLanguage\<close> as the repository has it today: \<open>compileGo\<close>, \<open>compilePython\<close> and
  \<open>compileCPP\<close> return \<open>nil\<close> and the error \<open>not yet implemented\<close>, and any other
  language is unsupported.  The backends are pluggable, so the controller is verified
  against any backend, given by the \<open>World\<close>.
\<close>

definition compileLanguage_placeholder ::
  "string \<Rightarrow> CompilationResult option \<times> string option"
where
  "compileLanguage_placeholder language =
     (if language = ''go'' \<or> language = ''python'' \<or> language = ''cpp''
      then (None, Some ''not yet implemented'')
      else (None, Some (''unsupported language: '' @ language)))"

text \<open>
  The calls that leave the controller are recorded in order: requests to the model
  client and to the compile backend, and the three messages written to the connection
  (their clock readings are left out).
\<close>

datatype Event =
    LLMRequest string "int list" string
  | CompileRequest string string string
  | IterationMessage int string string string bool string int
  | CompletionMessage string int string string
  | AbortMessage string int string string

record Run =
  job :: ExecutionJob
  events :: "Event list"

datatype Flow = Continue | Return | Panic

subsection \<open>Messages\<close>

definition sendIterationMessage ::
  "Run \<Rightarrow> int \<Rightarrow> string \<Rightarrow> string \<Rightarrow> CompilationResult \<Rightarrow> Run"
where
  "sendIterationMessage r iteration mainCode testCode result =
     r\<lparr>events := events r @
        [IterationMessage iteration mainCode testCode (Output result) (Success result)
           (ErrorType_String (ErrorType result)) (last (PromptSizes (Metrics (job r))))]\<rparr>"

definition sendCompletionMessage :: "Run \<Rightarrow> string \<Rightarrow> string \<Rightarrow> Run" where
  "sendCompletionMessage r mainCode testCode =
     r\<lparr>events := events r @
        [CompletionMessage ''success'' (IterationCount (Metrics (job r))) mainCode testCode]\<rparr>"

definition sendAbortMessage :: "Run \<Rightarrow> string \<Rightarrow> Run" where
  "sendAbortMessage r reason =
     (let history = ErrorHistory (LLMCtx (job r));
          lastErrorType =
            (if length history > 0 then ErrorType_String (last history)
             else ErrorType_String ErrorTypeUnknown)
      in r\<lparr>events := events r @
           [AbortMessage (AbortReason (job r)) (IterationCount (Metrics (job r))) reason
              lastErrorType]\<rparr>)"

text \<open>
  The statements of every abort: \<open>job.Status = "aborted"\<close>, \<open>job.AbortReason = ...\<close>,
  \<open>sendAbortMessage(conn, job, ...)\<close>, \<open>return\<close>.
\<close>

definition abortJob :: "string \<Rightarrow> string \<Rightarrow> Run \<Rightarrow> Flow \<times> Run" where
  "abortJob reason message r =
     (Return,
      sendAbortMessage (r\<lparr>job := (job r)\<lparr>Status := ''aborted'', AbortReason := reason\<rparr>\<rparr>)
        message)"

subsection \<open>One iteration of \<open>RunCompilationJob\<close>\<close>

fun Join :: "string list \<Rightarrow> string \<Rightarrow> string" where
  "Join [] sep = []"
| "Join [x] sep = x"
| "Join (x # y # ys) sep = x @ sep @ Join (y # ys) sep"

text \<open>The loop that sets \<open>allSame\<close>.\<close>

fun allSame :: "ErrorType list \<Rightarrow> ErrorType \<Rightarrow> bool" where
  "allSame [] t = True"
| "allSame (e # es) t = (if e \<noteq> t then False else allSame es t)"

text \<open>Phase 5: error analysis and loop continuation.\<close>

definition errorAnalysis :: "int \<Rightarrow> CompilationResult \<Rightarrow> Run \<Rightarrow> Flow \<times> Run" where
  "errorAnalysis iteration result r0 =
     (let j0 = job r0;
          ctx = (LLMCtx j0)
                  \<lparr>ErrorHistory := ErrorHistory (LLMCtx j0) @ [ErrorType result],
                   LastErrorMessage := Join (CompileErrors result) ''; ''\<rparr>;
          j = j0\<lparr>LLMCtx := ctx, Metrics := (Metrics j0)\<lparr>LastErrorType := ErrorType result\<rparr>\<rparr>;
          r = r0\<lparr>job := j\<rparr>;
          history = ErrorHistory ctx
      in
      if ErrorType result = ErrorTypeInfrastructure then
        (if iteration < 2 then (Continue, r)
         else abortJob ''infrastructure_error_persistent'' ''Persistent infrastructure error'' r)
      else if length history \<ge> SameErrorThreshold
              \<and> allSame (drop (length history - SameErrorThreshold) history) (ErrorType result)
              \<and> ErrorType result \<noteq> ErrorTypeSuccess then
        abortJob ''same_error_threshold''
          (''LLM stuck with same error after '' @ itoa (int SameErrorThreshold) @ '' attempts'')
          (r\<lparr>job := j\<lparr>Metrics := (Metrics j)\<lparr>SameErrorCount := int SameErrorThreshold\<rparr>\<rparr>\<rparr>)
      else if iteration \<ge> MaxIterations j then
        abortJob ''max_iterations_reached''
          (''Max iterations ('' @ itoa (MaxIterations j) @ '') reached'')
          (r\<lparr>job := j\<lparr>FinalResult := Some result\<rparr>\<rparr>)
      else (Continue, r))"

text \<open>
  Phases 3 and 4: compile, report, stop on success.  A \<open>nil\<close> result with a \<open>nil\<close> error
  makes \<open>result.Success\<close> panic.
\<close>

definition compileAndAnalyze ::
  "World \<Rightarrow> int \<Rightarrow> string \<Rightarrow> string \<Rightarrow> Run \<Rightarrow> Flow \<times> Run"
where
  "compileAndAnalyze w iteration mainCode testCode r0 =
     (let r = r0\<lparr>events := events r0 @ [CompileRequest (Language (job r0)) mainCode testCode]\<rparr>
      in
      case compileLanguage w iteration (Language (job r0)) mainCode testCode of
        (_, Some compileErr) \<Rightarrow>
          abortJob ''compilation_failed'' (''Compilation failed: '' @ compileErr) r
      | (None, None) \<Rightarrow> (Panic, r)
      | (Some result, None) \<Rightarrow>
          let r = sendIterationMessage r iteration mainCode testCode result in
          if Success result then
            (Return,
             sendCompletionMessage
               (r\<lparr>job := (job r)\<lparr>FinalResult := Some result, Status := ''completed''\<rparr>\<rparr>)
               mainCode testCode)
          else errorAnalysis iteration result r)"

text \<open>Phase 2: extraction.\<close>

definition extractAndCompile :: "World \<Rightarrow> int \<Rightarrow> string \<Rightarrow> Run \<Rightarrow> Flow \<times> Run" where
  "extractAndCompile w iteration llmResponse r =
     (case ExtractWithFallback NewExtractor llmResponse of
        (mainCode, testCode, extractionStrategy) \<Rightarrow>
          if mainCode = [] then
            abortJob ''extraction_failed'' ''Failed to extract code from LLM response'' r
          else compileAndAnalyze w iteration mainCode testCode r)"

text \<open>The guards at the head of the loop body and phase 1: the call of the model.\<close>

definition iterationBody :: "World \<Rightarrow> int \<Rightarrow> Run \<Rightarrow> Flow \<times> Run" where
  "iterationBody w iteration r0 =
     (if ctxDone w iteration then abortJob ''user_cancelled'' ''User cancelled execution'' r0
      else if sinceStart w iteration > Timeout (job r0) then
        abortJob ''total_timeout'' ''Total timeout exceeded'' r0
      else
        let j = (job r0)\<lparr>Metrics := (Metrics (job r0))\<lparr>IterationCount := iteration\<rparr>\<rparr>;
            (prompt, promptSize) = buildPrompt j iteration
        in
        if promptSize > MaxPromptSize then
          abortJob ''prompt_size_exceeded''
            (''Prompt size exceeded: '' @ itoa promptSize @ '' > '' @ itoa MaxPromptSize
             @ '' bytes'')
            (r0\<lparr>job := j\<rparr>)
        else
          let j = j\<lparr>Metrics := (Metrics j)\<lparr>PromptSizes := PromptSizes (Metrics j) @ [promptSize]\<rparr>\<rparr>;
              (llmResponse, updatedContext, llmErr) =
                GetOllamaResponse w iteration prompt (ConversationTokens (LLMCtx j)) (Model j);
              request = LLMRequest prompt (ConversationTokens (LLMCtx j)) (Model j);
              j = j\<lparr>Metrics := (Metrics j)
                     \<lparr>LLMResponseTimes := LLMResponseTimes (Metrics j) @ [llmTime w iteration]\<rparr>\<rparr>;
              r = r0\<lparr>job := j, events := events r0 @ [request]\<rparr>
          in
          case llmErr of
            Some e \<Rightarrow> abortJob ''llm_error'' (''LLM error: '' @ e) r
          | None \<Rightarrow>
              if llmResponse = [] then
                abortJob ''empty_llm_response'' ''LLM returned empty response'' r
              else
                let j = j\<lparr>LLMCtx := (LLMCtx j)
                          \<lparr>ConversationTokens := updatedContext,
                           PromptHistory := PromptHistory (LLMCtx j) @ [prompt]\<rparr>\<rparr>
                in extractAndCompile w iteration llmResponse (r\<lparr>job := j\<rparr>))"

subsection \<open>The loop and the deferred handler\<close>

lemma abortJob_MaxIterations:
  "abortJob reason message r = (flow, r') \<Longrightarrow>
   MaxIterations (job r') = MaxIterations (job r)"
  by (auto simp: abortJob_def sendAbortMessage_def Let_def)

lemma errorAnalysis_MaxIterations:
  "errorAnalysis iteration result r = (flow, r') \<Longrightarrow>
   MaxIterations (job r') = MaxIterations (job r)"
  by (auto simp: errorAnalysis_def Let_def split: if_splits dest!: abortJob_MaxIterations)

lemma compileAndAnalyze_MaxIterations:
  "compileAndAnalyze w iteration mainCode testCode r = (flow, r') \<Longrightarrow>
   MaxIterations (job r') = MaxIterations (job r)"
  by (auto simp: compileAndAnalyze_def Let_def sendIterationMessage_def
        sendCompletionMessage_def
      split: if_splits option.splits prod.splits
      dest!: abortJob_MaxIterations errorAnalysis_MaxIterations)

lemma extractAndCompile_MaxIterations:
  "extractAndCompile w iteration llmResponse r = (flow, r') \<Longrightarrow>
   MaxIterations (job r') = MaxIterations (job r)"
  by (auto simp: extractAndCompile_def split: if_splits prod.splits
      dest!: abortJob_MaxIterations compileAndAnalyze_MaxIterations)

lemma iterationBody_MaxIterations:
  "iterationBody w iteration r = (flow, r') \<Longrightarrow>
   MaxIterations (job r') = MaxIterations (job r)"
  by (auto simp: iterationBody_def Let_def split: if_splits option.splits prod.splits
      dest!: abortJob_MaxIterations extractAndCompile_MaxIterations)

text \<open>
  \<open>for iteration := 1; iteration <= job.MaxIterations; iteration++\<close>, from any index.
  \<open>Continue\<close> out of the loop means the loop ran to its end.
\<close>

function runLoop :: "World \<Rightarrow> int \<Rightarrow> Run \<Rightarrow> Flow \<times> Run" where
  "runLoop w iteration r =
     (if iteration \<le> MaxIterations (job r) then
        (case iterationBody w iteration r of
           (Continue, r') \<Rightarrow> runLoop w (iteration + 1) r'
         | (Return, r') \<Rightarrow> (Return, r')
         | (Panic, r') \<Rightarrow> (Panic, r'))
      else (Continue, r))"
  by pat_completeness auto
termination
  by (relation "measure (\<lambda>(w, iteration, r). nat (MaxIterations (job r) + 1 - iteration))")
    (auto dest: iterationBody_MaxIterations [OF sym])

declare runLoop.simps [simp del]

text \<open>
  The body of \<open>RunCompilationJob\<close> up to its \<open>return\<close> (or panic), and the function with
  its deferred handler, which runs on every exit.
\<close>

definition runBody :: "World \<Rightarrow> ExecutionJob \<Rightarrow> Flow \<times> Run" where
  "runBody w job0 =
     (let r0 = \<lparr>job = job0\<lparr>Status := ''running'', StartTime := timeNow w\<rparr>, events = []\<rparr> in
      case runLoop w 1 r0 of
        (Continue, r) \<Rightarrow>
          (Return, r\<lparr>job := (job r)\<lparr>Status := ''completed'', AbortReason := ''unknown''\<rparr>\<rparr>)
      | (Return, r) \<Rightarrow> (Return, r)
      | (Panic, r) \<Rightarrow> (Panic, r))"

definition deferredHandler :: "Flow \<Rightarrow> Run \<Rightarrow> Run" where
  "deferredHandler flow r =
     (let j = (job r)\<lparr>Status := ''completed''\<rparr>;
          j = (if flow = Panic then j\<lparr>AbortReason := ''internal_panic''\<rparr> else j)
      in r\<lparr>job := j\<rparr>)"

definition RunCompilationJob :: "World \<Rightarrow> ExecutionJob \<Rightarrow> Run" where
  "RunCompilationJob w job0 = (case runBody w job0 of (flow, r) \<Rightarrow> deferredHandler flow r)"

section \<open>Notions of the specification\<close>

text \<open>
  The specification's reading of a match, stated without the code's helpers: a pattern
  occurs in a text, ignoring case, when the lower-cased pattern is a contiguous piece of
  the lower-cased text, and a category matches when one of its patterns occurs.  For a
  text and a pattern of ASCII bytes this is the same as: some contiguous piece of the
  text equals the pattern up to the case of the letters (\<open>occursUpToCase\<close>).
\<close>

definition occursIgnoringCase :: "(string \<Rightarrow> string) \<Rightarrow> string \<Rightarrow> string \<Rightarrow> bool" where
  "occursIgnoringCase unicodeLower pat s \<longleftrightarrow>
     (\<exists>pre post. ToLower unicodeLower s = pre @ ToLower unicodeLower pat @ post)"

definition categoryMatches :: "(string \<Rightarrow> string) \<Rightarrow> string list \<Rightarrow> string \<Rightarrow> bool" where
  "categoryMatches unicodeLower pats s \<longleftrightarrow>
     (\<exists>p \<in> set pats. occursIgnoringCase unicodeLower p s)"

definition occursUpToCase :: "string \<Rightarrow> string \<Rightarrow> bool" where
  "occursUpToCase pat s \<longleftrightarrow>
     (\<exists>pre m post. s = pre @ m @ post \<and> map lowerByte m = map lowerByte pat)"

subsection \<open>Well-formed fenced blocks\<close>

text \<open>
  A fenced block as the expressions above read it: three backticks, a tag, a newline, the
  content, three backticks.  It is well formed when the tag consists of lower-case
  letters (or is empty), the content holds no three backticks in a row and does not end
  with a backtick (so that the closing fence is the first one after the opening fence),
  and the content is not blank.
\<close>

definition fencedBlock :: "string \<Rightarrow> string \<Rightarrow> string" where
  "fencedBlock tag content = ''```'' @ tag @ [CHR 0x0A] @ content @ ''```''"

definition wellFormedBlock :: "string \<Rightarrow> string \<Rightarrow> bool" where
  "wellFormedBlock tag content \<longleftrightarrow>
     list_all lowerLetter tag \<and> \<not> Contains content ''```'' \<and> \<not> suffix ''`'' content \<and>
     TrimSpace content \<noteq> []"

text \<open>
  An iteration is analysed when it passes every guard before phase 5: the context is not
  done, the time budget is not exceeded, the prompt fits, the model answers without
  error and not with the empty string, extraction yields main code, the backend returns
  a result without error, and the result is not a success.
\<close>

definition analysed :: "World \<Rightarrow> int \<Rightarrow> Run \<Rightarrow> CompilationResult \<Rightarrow> bool" where
  "analysed w iteration r result \<longleftrightarrow>
     \<not> ctxDone w iteration \<and> \<not> sinceStart w iteration > Timeout (job r) \<and>
     \<not> snd (buildPrompt (job r) iteration) > MaxPromptSize \<and>
     (case GetOllamaResponse w iteration (fst (buildPrompt (job r) iteration))
             (ConversationTokens (LLMCtx (job r))) (Model (job r)) of
        (llmResponse, updatedContext, llmErr) \<Rightarrow>
          llmErr = None \<and> llmResponse \<noteq> [] \<and>
          (case ExtractWithFallback NewExtractor llmResponse of
             (mainCode, testCode, strategy) \<Rightarrow>
               mainCode \<noteq> [] \<and>
               compileLanguage w iteration (Language (job r)) mainCode testCode =
                 (Some result, None))) \<and>
     \<not> Success result"

text \<open>
  The stuck-loop guard fires on an error kind when the two kinds recorded last are that
  kind too (three in a row with the new one) and the kind is not \<open>success\<close>.
\<close>

definition sameErrorGuardFires :: "ErrorType list \<Rightarrow> ErrorType \<Rightarrow> bool" where
  "sameErrorGuardFires recorded kind \<longleftrightarrow>
     (\<exists>earlier. recorded = earlier @ [kind, kind]) \<and> kind \<noteq> ErrorTypeSuccess"

text \<open>The prompts that reached the model client, in order.\<close>

fun requestPrompt :: "Event \<Rightarrow> string option" where
  "requestPrompt (LLMRequest prompt tokens model) = Some prompt"
| "requestPrompt (CompileRequest language mainCode testCode) = None"
| "requestPrompt (IterationMessage i m t out ok kind n) = None"
| "requestPrompt (CompletionMessage label n code tests) = None"
| "requestPrompt (AbortMessage reason i message kind) = None"

definition promptsSent :: "Event list \<Rightarrow> string list" where
  "promptsSent evs = List.map_filter requestPrompt evs"

text \<open>A prompt fits when its byte size is at most \<open>MaxPromptSize\<close>.\<close>

definition fits :: "string \<Rightarrow> bool" where
  "fits prompt \<longleftrightarrow> int (length prompt) \<le> MaxPromptSize"

subsection \<open>Sample inputs\<close>

definition sampleJob :: ExecutionJob where
  "sampleJob =
     \<lparr>ID = ''job-1'', Language = ''go'', UserPrompt = ''write a function that doubles an integer'',
      Model = ''llama3.2:1b'', MaxIterations = 3, Timeout = 300000000000, Status = ''pending'',
      StartTime = 0,
      LLMCtx = \<lparr>ConversationTokens = [], PromptHistory = [], ErrorHistory = [],
                AttemptCount = 0, LastErrorMessage = []\<rparr>,
      Metrics = \<lparr>IterationCount = 0, TotalTime = 0, PromptSizes = [], LLMResponseTimes = [],
                 LastErrorType = ErrorTypeUnknown, SameErrorCount = 0, ExtractedLanguages = []\<rparr>,
      FinalResult = None, AbortReason = []\<rparr>"

definition failedResult :: "ErrorType \<Rightarrow> CompilationResult" where
  "failedResult kind =
     \<lparr>Success = False, ExitCode = 1, CompileErrors = [''main.go:3:1: broken''], TestErrors = [],
      Output = ''main.go:3:1: broken'', ErrorType = kind, ExecutionTime = 5\<rparr>"

text \<open>
  A world in which the context is never done, the clock stands still, the model always
  answers with the same two fenced blocks, and the backend classifies the failure of
  iteration \<open>i\<close> as \<open>kinds i\<close>.
\<close>

definition sampleWorld :: "(int \<Rightarrow> ErrorType) \<Rightarrow> World" where
  "sampleWorld kinds =
     \<lparr>timeNow = 0, ctxDone = (\<lambda>i. False), sinceStart = (\<lambda>i. 0),
      GetOllamaResponse =
        (\<lambda>i prompt tokens model.
           (''```go\<newline>package main\<newline>```\<newline>```go\<newline>package main\<newline>```'', [], None)),
      llmTime = (\<lambda>i. 7),
      compileLanguage = (\<lambda>i language mainCode testCode. (Some (failedResult (kinds i)), None))\<rparr>"

text \<open>The sample job at the start of an iteration, with the error kinds recorded so far.\<close>

definition sampleRun :: "ErrorType list \<Rightarrow> Run" where
  "sampleRun recorded =
     \<lparr>job = sampleJob\<lparr>LLMCtx := (LLMCtx sampleJob)\<lparr>ErrorHistory := recorded\<rparr>\<rparr>, events = []\<rparr>"

section \<open>Properties of the string functions\<close>

lemma Index_None_iff: "Index s sub = None \<longleftrightarrow> \<not> sublist sub s"
proof (induction s)
  case Nil
  then show ?case by simp
next
  case (Cons c cs)
  show ?case
  proof (cases "prefix sub (c # cs)")
    case True
    then show ?thesis by (auto simp: sublist_def prefix_def intro: exI [of _ "[]"])
  next
    case False
    then have "sub \<noteq> []" by auto
    with False Cons show ?thesis by (simp add: sublist_Cons_right)
  qed
qed

lemma Contains_sublist: "Contains s sub \<longleftrightarrow> sublist sub s"
  by (simp add: Contains_def Index_None_iff)

section \<open>The classifier's precedence\<close>

lemma sublist_map_iff:
  "sublist (map f p) (map f s) \<longleftrightarrow> (\<exists>pre m post. s = pre @ m @ post \<and> map f m = map f p)"
proof
  assume "sublist (map f p) (map f s)"
  then obtain ps ss where "map f s = ps @ (map f p @ ss)" by (auto simp: sublist_def)
  then obtain us vs where s: "s = us @ vs" and vs: "map f p @ ss = map f vs"
    unfolding map_eq_append_conv by blast
  from vs obtain m post where "vs = m @ post" and "map f m = map f p"
    unfolding append_eq_map_conv by metis
  with s show "\<exists>pre m post. s = pre @ m @ post \<and> map f m = map f p" by blast
next
  assume "\<exists>pre m post. s = pre @ m @ post \<and> map f m = map f p"
  then obtain pre m post where "s = pre @ m @ post" and "map f m = map f p" by blast
  then have "map f s = map f pre @ map f p @ map f post" by simp
  then show "sublist (map f p) (map f s)" unfolding sublist_def by blast
qed

lemma Contains_ToLower:
  "Contains (ToLower unicodeLower s) (ToLower unicodeLower p) \<longleftrightarrow>
   occursIgnoringCase unicodeLower p s"
  by (simp add: Contains_sublist sublist_def occursIgnoringCase_def)

lemma anyPattern_categoryMatches:
  "anyPattern unicodeLower (ToLower unicodeLower s) pats \<longleftrightarrow>
   categoryMatches unicodeLower pats s"
  by (induction pats) (auto simp: categoryMatches_def Contains_ToLower)

lemma occursIgnoringCase_ASCII:
  assumes "isASCII s" and "isASCII pat"
  shows "occursIgnoringCase unicodeLower pat s \<longleftrightarrow> occursUpToCase pat s"
proof -
  have "occursIgnoringCase unicodeLower pat s \<longleftrightarrow> sublist (map lowerByte pat) (map lowerByte s)"
    using assms by (simp add: occursIgnoringCase_def ToLower_def sublist_def)
  then show ?thesis by (simp add: sublist_map_iff occursUpToCase_def)
qed

lemma patterns_ASCII:
  "list_all isASCII (infraPatterns @ syntaxPatterns @ typePatterns @ runtimePatterns)"
  by code_simp

text \<open>
  Claim C6.  \<open>classifyGoError\<close> tries the categories in the order infrastructure, syntax,
  type, runtime, and the first category one of whose patterns occurs in the output,
  ignoring case, is the result whatever the later categories would match; when no
  pattern of any category occurs, the result is logic if there are test errors,
  otherwise type if there are compile errors, otherwise unknown.  This holds for every
  output and whatever package \<open>unicode\<close> does on text that is not ASCII.  Every pattern
  is ASCII, and in an ASCII output a pattern occurs, ignoring case, exactly when a piece
  of the output equals it up to the case of the letters.
\<close>

theorem classifyGoError_precedence:
  "classifyGoError unicodeLower output compileErrors testErrors =
     (if categoryMatches unicodeLower infraPatterns output then ErrorTypeGoInfrastructure
      else if categoryMatches unicodeLower syntaxPatterns output then ErrorTypeGoSyntax
      else if categoryMatches unicodeLower typePatterns output then ErrorTypeGoType
      else if categoryMatches unicodeLower runtimePatterns output then ErrorTypeGoRuntime
      else if testErrors \<noteq> [] then ErrorTypeGoLogic
      else if compileErrors \<noteq> [] then ErrorTypeGoType
      else ErrorTypeGoUnknown)
   \<and> list_all isASCII (infraPatterns @ syntaxPatterns @ typePatterns @ runtimePatterns)
   \<and> (isASCII output \<and> isASCII pat \<longrightarrow>
        occursIgnoringCase unicodeLower pat output = occursUpToCase pat output)"
  using patterns_ASCII
  by (simp add: classifyGoError_def anyPattern_categoryMatches occursIgnoringCase_ASCII)

text \<open>
  The theorem at an ASCII output in mixed case that matches patterns of all four
  categories, and at an output with the Kelvin sign in \<open>package\<close>, where \<open>unicodeLower\<close>
  returns for that output what Go returns.
\<close>

theorem classifyGoError_precedence_witness:
  "isASCII ''GO.MOD Already Exists: Syntax Error, undefined: x, PANIC''
   \<and> isASCII ''go.mod already exists''
   \<and> occursUpToCase ''go.mod already exists''
        ''GO.MOD Already Exists: Syntax Error, undefined: x, PANIC''
   \<and> categoryMatches (\<lambda>s. s) infraPatterns
        ''GO.MOD Already Exists: Syntax Error, undefined: x, PANIC''
   \<and> classifyGoError (\<lambda>s. s) ''GO.MOD Already Exists: Syntax Error, undefined: x, PANIC''
        [''main.go:1: x''] [''FAIL''] = ErrorTypeGoInfrastructure
   \<and> classifyGoError
        (\<lambda>s. if s = ''cannot find pac'' @ [CHR 0xE2, CHR 0x84, CHR 0xAA] @ ''age''
              then ''cannot find package'' else s)
        (''cannot find pac'' @ [CHR 0xE2, CHR 0x84, CHR 0xAA] @ ''age'') [] [] =
       ErrorTypeGoInfrastructure
   \<and> categoryMatches
        (\<lambda>s. if s = ''cannot find pac'' @ [CHR 0xE2, CHR 0x84, CHR 0xAA] @ ''age''
              then ''cannot find package'' else s)
        infraPatterns (''cannot find pac'' @ [CHR 0xE2, CHR 0x84, CHR 0xAA] @ ''age'')"
proof -
  have 1: "isASCII ''GO.MOD Already Exists: Syntax Error, undefined: x, PANIC''"
    and 2: "isASCII ''go.mod already exists''"
    by code_simp+
  have 3: "classifyGoError (\<lambda>s. s) ''GO.MOD Already Exists: Syntax Error, undefined: x, PANIC''
          [''main.go:1: x''] [''FAIL''] = ErrorTypeGoInfrastructure"
    by code_simp
  have 4: "classifyGoError
        (\<lambda>s. if s = ''cannot find pac'' @ [CHR 0xE2, CHR 0x84, CHR 0xAA] @ ''age''
              then ''cannot find package'' else s)
        (''cannot find pac'' @ [CHR 0xE2, CHR 0x84, CHR 0xAA] @ ''age'') [] [] =
       ErrorTypeGoInfrastructure"
    by code_simp
  have "Contains (ToLower (\<lambda>s. s) ''GO.MOD Already Exists: Syntax Error, undefined: x, PANIC'')
          (ToLower (\<lambda>s. s) ''go.mod already exists'')"
    by code_simp
  then have 5: "occursIgnoringCase (\<lambda>s. s) ''go.mod already exists''
          ''GO.MOD Already Exists: Syntax Error, undefined: x, PANIC''"
    by (simp only: Contains_ToLower)
  from classifyGoError_precedence
      [of "\<lambda>s. s" "''GO.MOD Already Exists: Syntax Error, undefined: x, PANIC''"
          "[''main.go:1: x'']" "[''FAIL'']" "''go.mod already exists''"] 1 2 3 5
  have a: "occursUpToCase ''go.mod already exists''
        ''GO.MOD Already Exists: Syntax Error, undefined: x, PANIC''
     \<and> categoryMatches (\<lambda>s. s) infraPatterns
        ''GO.MOD Already Exists: Syntax Error, undefined: x, PANIC''"
    by (auto split: if_splits)
  from classifyGoError_precedence
      [of "\<lambda>s. if s = ''cannot find pac'' @ [CHR 0xE2, CHR 0x84, CHR 0xAA] @ ''age''
              then ''cannot find package'' else s"
          "''cannot find pac'' @ [CHR 0xE2, CHR 0x84, CHR 0xAA] @ ''age''" "[]" "[]"] 4
  have b: "categoryMatches
        (\<lambda>s. if s = ''cannot find pac'' @ [CHR 0xE2, CHR 0x84, CHR 0xAA] @ ''age''
              then ''cannot find package'' else s)
        infraPatterns (''cannot find pac'' @ [CHR 0xE2, CHR 0x84, CHR 0xAA] @ ''age'')"
    by (auto split: if_splits)
  from 1 2 3 4 a b show ?thesis by blast
qed

section \<open>The extraction chain\<close>

lemma SingleFile_Inl:
  "SingleFileStrategy_Extract response = Inl e \<Longrightarrow> FindAllStringSubmatch AnyTag response = []"
  by (auto simp: SingleFileStrategy_Extract_def Let_def split: if_splits option.splits)

lemma tryStrategies_Inr_name:
  "tryStrategies e response lastErr = Inr (m, t, n) \<Longrightarrow> n \<in> Name ` set e"
  by (induction e arbitrary: lastErr) (auto split: sum.splits)

lemma tryStrategies_Inl_all:
  "tryStrategies e response lastErr = Inl err \<Longrightarrow> strat \<in> set e \<Longrightarrow> \<exists>x. Extract strat response = Inl x"
  by (induction e arbitrary: lastErr) (auto split: sum.splits)

lemma Name_not_emergency: "Name strat \<noteq> ''emergency_fallback''"
  by (cases strat) simp_all

lemma chain_fails_no_block:
  assumes "Extractor_Extract NewExtractor response = Inl err"
  shows "FindAllStringSubmatch AnyTag response = []"
proof -
  from assms have "\<exists>x. Extract SingleFileStrategy response = Inl x"
    unfolding Extractor_Extract_def
    by (rule tryStrategies_Inl_all) (simp add: NewExtractor_def)
  then show ?thesis by (auto dest: SingleFile_Inl)
qed

text \<open>
  Claim C10.  With the chain of \<open>NewExtractor\<close>, \<open>ExtractWithFallback\<close> never returns the
  label \<open>emergency_fallback\<close>: whenever the expression of the emergency fallback finds a
  fenced block, \<open>SingleFileStrategy\<close> (the last strategy, with the same expression) has
  succeeded, so after a failed chain the result is the trimmed input as main code, empty
  test code and the label \<open>raw_response\<close>.
\<close>

theorem ExtractWithFallback_never_emergency:
  "snd (snd (ExtractWithFallback NewExtractor response)) \<noteq> ''emergency_fallback'' \<and>
   (FindAllStringSubmatch AnyTag response \<noteq> [] \<longrightarrow>
      (\<exists>main test. SingleFileStrategy_Extract response = Inr (main, test))) \<and>
   (\<forall>err. Extractor_Extract NewExtractor response = Inl err \<longrightarrow>
      ExtractWithFallback NewExtractor response = (TrimSpace response, [], ''raw_response''))"
proof (intro conjI allI impI)
  show "snd (snd (ExtractWithFallback NewExtractor response)) \<noteq> ''emergency_fallback''"
  proof (cases "Extractor_Extract NewExtractor response")
    case (Inl err)
    then have "FindAllStringSubmatch AnyTag response = []" by (rule chain_fails_no_block)
    with Inl show ?thesis by (simp add: ExtractWithFallback_def)
  next
    case (Inr r)
    obtain m t n where r: "r = (m, t, n)" by (cases r) auto
    with Inr have "n \<in> Name ` set NewExtractor"
      unfolding Extractor_Extract_def by (auto dest: tryStrategies_Inr_name)
    then have "n \<noteq> ''emergency_fallback''" using Name_not_emergency by auto
    with Inr r show ?thesis by (simp add: ExtractWithFallback_def)
  qed
next
  assume "FindAllStringSubmatch AnyTag response \<noteq> []"
  then show "\<exists>main test. SingleFileStrategy_Extract response = Inr (main, test)"
    by (cases "SingleFileStrategy_Extract response") (auto dest: SingleFile_Inl)
next
  fix err
  assume a: "Extractor_Extract NewExtractor response = Inl err"
  then have "FindAllStringSubmatch AnyTag response = []" by (rule chain_fails_no_block)
  with a show "ExtractWithFallback NewExtractor response = (TrimSpace response, [], ''raw_response'')"
    by (simp add: ExtractWithFallback_def)
qed


theorem ExtractWithFallback_never_emergency_witness:
  "Extractor_Extract NewExtractor ''  no code here  '' =
     Inl ''all extraction strategies failed; last error: single_file_fallback: no code found''
   \<and> ExtractWithFallback NewExtractor ''  no code here  '' = (''no code here'', [], ''raw_response'')
   \<and> FindAllStringSubmatch AnyTag ''```\<newline>x := 1\<newline>```'' \<noteq> []
   \<and> SingleFileStrategy_Extract ''```\<newline>x := 1\<newline>```'' = Inr (''x := 1'', [])"
proof -
  have 1: "Extractor_Extract NewExtractor ''  no code here  '' =
     Inl ''all extraction strategies failed; last error: single_file_fallback: no code found''"
    by code_simp
  have 2: "TrimSpace ''  no code here  '' = ''no code here''" by code_simp
  have 3: "FindAllStringSubmatch AnyTag ''```\<newline>x := 1\<newline>```'' \<noteq> []" by code_simp
  have 4: "SingleFileStrategy_Extract ''```\<newline>x := 1\<newline>```'' = Inr (''x := 1'', [])" by code_simp
  show ?thesis
    using ExtractWithFallback_never_emergency [of "''  no code here  ''"]
      ExtractWithFallback_never_emergency [of "''```\<newline>x := 1\<newline>```''"] 1 2 3 4
    by simp
qed

subsection \<open>Text without fenced blocks\<close>

lemma openFence_GoTag_AnyTag:
  assumes "openFence GoTag s = Some body"
  shows "openFence AnyTag s = Some body"
proof -
  from assms have s: "s = ''```go'' @ [CHR 0x0A] @ body"
    by (auto split: if_splits simp: prefix_def)
  show ?thesis unfolding s by (simp add: lowerLetter_def)
qed

lemma no_block_no_go_block:
  "FindAllStringSubmatch AnyTag s = [] \<Longrightarrow> FindAllStringSubmatch GoTag s = []"
proof (induction s)
  case Nil
  then show ?case by simp
next
  case (Cons c cs)
  from Cons.prems have tail: "FindAllStringSubmatch AnyTag cs = []"
    by (auto split: option.splits)
  show ?case
  proof (cases "openFence GoTag (c # cs)")
    case None
    with Cons.IH tail show ?thesis by simp
  next
    case (Some body)
    then have "openFence AnyTag (c # cs) = Some body" by (rule openFence_GoTag_AnyTag)
    with Cons.prems have "splitFence body = None" by (auto split: option.splits)
    with Some Cons.IH tail show ?thesis by simp
  qed
qed

lemma TestMarker_Inr_length:
  "TestMarkerStrategy_Extract response = Inr (m, t) \<Longrightarrow> 30 \<le> length m"
  by (auto simp: TestMarkerStrategy_Extract_def Let_def split: option.splits if_splits)

lemma PackageMain_Inr_length:
  "PackageMainStrategy_Extract response = Inr (m, t) \<Longrightarrow> 50 \<le> length m"
  by (auto simp: PackageMainStrategy_Extract_def Let_def split: option.splits if_splits)

lemma Standard_no_block:
  "FindAllStringSubmatch AnyTag response = [] \<Longrightarrow> \<exists>e. StandardFormatStrategy_Extract response = Inl e"
  by (simp add: StandardFormatStrategy_Extract_def)

lemma LanguageTag_no_block:
  "FindAllStringSubmatch AnyTag response = [] \<Longrightarrow> \<exists>e. LanguageTagStrategy_Extract response = Inl e"
  by (simp add: LanguageTagStrategy_Extract_def no_block_no_go_block)

lemma SingleFile_no_block:
  "FindAllStringSubmatch AnyTag response = [] \<Longrightarrow> 50 < length response \<Longrightarrow>
   SingleFileStrategy_Extract response = Inr (TrimSpace response, [])"
  by (simp add: SingleFileStrategy_Extract_def)

text \<open>
  Claim C8, as amended.  For a text with no fenced block, more than 50 bytes and not
  only white space, \<open>ExtractWithFallback\<close> returns through a strategy of the chain: the
  test-marker split, the \<open>package main\<close> split or the single-file fallback, never
  \<open>raw_response\<close> or \<open>emergency_fallback\<close>, and the main code is not empty.  When the
  single-file fallback is the one that returns, the main code is the trimmed text and the
  test code is empty.
\<close>

theorem no_fence_long_input:
  assumes "FindAllStringSubmatch AnyTag response = []" and "50 < length response"
    and "TrimSpace response \<noteq> []"
  shows "\<exists>main test strategy.
           ExtractWithFallback NewExtractor response = (main, test, strategy) \<and>
           strategy \<in> {''test_marker_split'', ''package_main_split'', ''single_file_fallback''} \<and>
           main \<noteq> [] \<and>
           (strategy = ''single_file_fallback'' \<longrightarrow> main = TrimSpace response \<and> test = [])"
proof -
  from assms obtain e1 where e1: "StandardFormatStrategy_Extract response = Inl e1"
    using Standard_no_block by blast
  from assms obtain e2 where e2: "LanguageTagStrategy_Extract response = Inl e2"
    using LanguageTag_no_block by blast
  from assms have s: "SingleFileStrategy_Extract response = Inr (TrimSpace response, [])"
    by (intro SingleFile_no_block)
  show ?thesis
  proof (cases "TestMarkerStrategy_Extract response")
    case (Inr r)
    obtain m t where r: "r = (m, t)" by (cases r) auto
    with Inr have "30 \<le> length m" by (auto dest: TestMarker_Inr_length)
    then have "m \<noteq> []" by auto
    with Inr r e1 e2 show ?thesis
      by (simp add: ExtractWithFallback_def Extractor_Extract_def NewExtractor_def)
  next
    case (Inl e3)
    show ?thesis
    proof (cases "PackageMainStrategy_Extract response")
      case (Inr r)
      obtain m t where r: "r = (m, t)" by (cases r) auto
      with Inr have "50 \<le> length m" by (auto dest: PackageMain_Inr_length)
      then have "m \<noteq> []" by auto
      with Inr r Inl e1 e2 show ?thesis
        by (simp add: ExtractWithFallback_def Extractor_Extract_def NewExtractor_def)
    next
      case (Inl e4)
      with \<open>TestMarkerStrategy_Extract response = Inl e3\<close> e1 e2 s assms(3) show ?thesis
        by (simp add: ExtractWithFallback_def Extractor_Extract_def NewExtractor_def)
    qed
  qed
qed

theorem no_fence_long_input_witness:
  "FindAllStringSubmatch AnyTag
     ''The function doubles its argument and returns the result to the caller.'' = []
   \<and> 50 < length ''The function doubles its argument and returns the result to the caller.''
   \<and> TrimSpace ''The function doubles its argument and returns the result to the caller.'' \<noteq> []
   \<and> ExtractWithFallback NewExtractor
         ''The function doubles its argument and returns the result to the caller.'' =
       (''The function doubles its argument and returns the result to the caller.'', [],
        ''single_file_fallback'')"
proof -
  have 1: "FindAllStringSubmatch AnyTag
     ''The function doubles its argument and returns the result to the caller.'' = []"
    by code_simp
  have 2: "50 < length ''The function doubles its argument and returns the result to the caller.''"
    by simp
  have 3: "TrimSpace ''The function doubles its argument and returns the result to the caller.'' \<noteq> []"
    by code_simp
  have 4: "ExtractWithFallback NewExtractor
         ''The function doubles its argument and returns the result to the caller.'' =
       (''The function doubles its argument and returns the result to the caller.'', [],
        ''single_file_fallback'')"
    by code_simp
  show ?thesis using no_fence_long_input [OF 1 2 3] 1 2 3 4 by simp
qed

text \<open>
  The claim as stated fails twice: 51 spaces hold no fenced block, and the single-file
  fallback returns them trimmed, that is, an empty main code; and a text with a
  \<open>func Test\<close> line is split by the test-marker strategy, which comes earlier in the chain.
\<close>

theorem no_fence_long_input_counterexample:
  "FindAllStringSubmatch AnyTag (replicate 51 (CHR '' '')) = []
   \<and> 50 < length (replicate 51 (CHR '' ''))
   \<and> ExtractWithFallback NewExtractor (replicate 51 (CHR '' '')) =
       ([], [], ''single_file_fallback'')
   \<and> FindAllStringSubmatch AnyTag
       ''package main\<newline>func Double(x int) int { return 2 * x }\<newline>func TestDouble(t *testing.T) { if Double(2) != 4 { t.Fail() } }'' = []
   \<and> 50 < length
       ''package main\<newline>func Double(x int) int { return 2 * x }\<newline>func TestDouble(t *testing.T) { if Double(2) != 4 { t.Fail() } }''
   \<and> snd (snd (ExtractWithFallback NewExtractor
       ''package main\<newline>func Double(x int) int { return 2 * x }\<newline>func TestDouble(t *testing.T) { if Double(2) != 4 { t.Fail() } }'')) =
       ''test_marker_split''"
  by code_simp

subsection \<open>Text with two fenced blocks\<close>

lemma no_early_fence:
  assumes "content \<noteq> []" and "\<not> sublist ''```'' content" and "\<not> suffix ''`'' content"
  shows "\<not> prefix ''```'' (content @ ''```'' @ rest)"
proof -
  from assms(1) obtain a r1 where c1: "content = a # r1" by (cases content) auto
  show ?thesis
  proof (cases r1)
    case Nil
    with c1 assms(3) show ?thesis by (auto simp: suffix_def)
  next
    case (Cons b r2)
    show ?thesis
    proof (cases r2)
      case Nil
      with c1 Cons assms(3) show ?thesis by (auto simp: suffix_def)
    next
      case (Cons c r3)
      with c1 \<open>r1 = b # r2\<close> assms(2) show ?thesis
        by (auto simp: sublist_def prefix_def)
    qed
  qed
qed

lemma splitFence_content:
  "\<not> sublist ''```'' content \<Longrightarrow> \<not> suffix ''`'' content \<Longrightarrow>
   splitFence (content @ ''```'' @ rest) = Some (content, rest)"
proof (induction content)
  case Nil
  then show ?case by simp
next
  case (Cons c cs)
  have np: "\<not> prefix ''```'' ((c # cs) @ ''```'' @ rest)"
    using Cons.prems by (intro no_early_fence) auto
  have 1: "\<not> sublist ''```'' cs" using Cons.prems(1) by (auto simp: sublist_Cons_right)
  have 2: "\<not> suffix ''`'' cs" using Cons.prems(2) by (auto simp: suffix_Cons)
  from Cons.IH [OF 1 2] np show ?case by simp
qed

lemma openFence_in_text:
  assumes "pre \<noteq> []" and "\<not> sublist ''```'' pre"
  shows "openFence AnyTag (pre @ ''```'' @ rest) = None"
proof -
  from assms(1) obtain a r1 where c1: "pre = a # r1" by (cases pre) auto
  show ?thesis
  proof (cases r1)
    case Nil
    with c1 show ?thesis by (auto simp: lowerLetter_def)
  next
    case (Cons b r2)
    show ?thesis
    proof (cases r2)
      case Nil
      with c1 Cons show ?thesis by (auto simp: lowerLetter_def)
    next
      case (Cons c r3)
      with c1 \<open>r1 = b # r2\<close> assms(2) show ?thesis
        by (auto simp: sublist_def prefix_def)
    qed
  qed
qed

lemma skip_text:
  "\<not> sublist ''```'' pre \<Longrightarrow>
   FindAllStringSubmatch AnyTag (pre @ ''```'' @ rest) =
   FindAllStringSubmatch AnyTag (''```'' @ rest)"
proof (induction pre)
  case Nil
  then show ?case by simp
next
  case (Cons c cs)
  have "openFence AnyTag ((c # cs) @ ''```'' @ rest) = None"
    using Cons.prems by (intro openFence_in_text) auto
  then have "FindAllStringSubmatch AnyTag ((c # cs) @ ''```'' @ rest) =
             FindAllStringSubmatch AnyTag (cs @ ''```'' @ rest)"
    by simp
  moreover have "\<not> sublist ''```'' cs" using Cons.prems by (auto simp: sublist_Cons_right)
  ultimately show ?case using Cons.IH by simp
qed

lemma open_block:
  assumes "list_all lowerLetter tag"
  shows "openFence AnyTag (''```'' @ tag @ [CHR 0x0A] @ body) = Some body"
proof -
  have "dropWhile lowerLetter (tag @ [CHR 0x0A] @ body) = dropWhile lowerLetter ([CHR 0x0A] @ body)"
    using assms by (intro dropWhile_append2) (auto simp: list_all_iff)
  then show ?thesis by (simp add: lowerLetter_def)
qed

lemma find_block:
  assumes "wellFormedBlock tag content"
  shows "FindAllStringSubmatch AnyTag (fencedBlock tag content @ rest) =
         content # FindAllStringSubmatch AnyTag rest"
proof -
  from assms have t: "list_all lowerLetter tag" and c: "\<not> sublist ''```'' content"
    and e: "\<not> suffix ''`'' content"
    by (auto simp: wellFormedBlock_def Contains_sublist)
  have o: "openFence AnyTag (''```'' @ tag @ [CHR 0x0A] @ (content @ ''```'' @ rest)) =
           Some (content @ ''```'' @ rest)"
    using t by (rule open_block)
  have s: "splitFence (content @ ''```'' @ rest) = Some (content, rest)"
    using c e by (rule splitFence_content)
  have "fencedBlock tag content @ rest =
        CHR ''`'' # (''``'' @ tag @ [CHR 0x0A] @ (content @ ''```'' @ rest))"
    by (simp add: fencedBlock_def)
  moreover have "''```'' @ tag @ [CHR 0x0A] @ (content @ ''```'' @ rest) =
        CHR ''`'' # (''``'' @ tag @ [CHR 0x0A] @ (content @ ''```'' @ rest))"
    by simp
  ultimately show ?thesis using o s
    by (simp only: FindAllStringSubmatch.simps option.case prod.case)
qed

lemma find_two_blocks:
  assumes "\<not> Contains pre ''```''" and "\<not> Contains mid ''```''"
    and "wellFormedBlock tag1 content1" and "wellFormedBlock tag2 content2"
  shows "FindAllStringSubmatch AnyTag
           (pre @ fencedBlock tag1 content1 @ mid @ fencedBlock tag2 content2 @ post) =
         content1 # content2 # FindAllStringSubmatch AnyTag post"
proof -
  have f: "\<And>tag content rest. fencedBlock tag content @ rest =
             ''```'' @ (tag @ [CHR 0x0A] @ content @ ''```'' @ rest)"
    by (simp add: fencedBlock_def)
  have "FindAllStringSubmatch AnyTag
           (pre @ fencedBlock tag1 content1 @ mid @ fencedBlock tag2 content2 @ post) =
        FindAllStringSubmatch AnyTag
           (fencedBlock tag1 content1 @ mid @ fencedBlock tag2 content2 @ post)"
    unfolding f using assms(1) by (intro skip_text) (simp add: Contains_sublist)
  also have "\<dots> = content1 # FindAllStringSubmatch AnyTag (mid @ fencedBlock tag2 content2 @ post)"
    using assms(3) by (rule find_block)
  also have "FindAllStringSubmatch AnyTag (mid @ fencedBlock tag2 content2 @ post) =
             FindAllStringSubmatch AnyTag (fencedBlock tag2 content2 @ post)"
    unfolding f using assms(2) by (intro skip_text) (simp add: Contains_sublist)
  also have "\<dots> = content2 # FindAllStringSubmatch AnyTag post"
    using assms(4) by (rule find_block)
  finally show ?thesis .
qed

text \<open>
  What \<open>StandardFormatStrategy\<close> does guarantee.  For a text whose first two fenced blocks
  are well formed (the tag empty or of lower-case letters, a newline right after it),
  with no three backticks in the text before and between them, the strategy succeeds
  with the trimmed first block as main code and the trimmed second block as test code,
  and the extractor returns that pair under the strategy name \<open>standard_format\<close>.  The
  extractor is a function of the response alone, so the name is the same on every call.
\<close>

lemma standard_format_on_two_blocks:
  assumes "\<not> Contains pre ''```''" and "\<not> Contains mid ''```''"
    and "wellFormedBlock tag1 content1" and "wellFormedBlock tag2 content2"
    and "response = pre @ fencedBlock tag1 content1 @ mid @ fencedBlock tag2 content2 @ post"
  shows "StandardFormatStrategy_Extract response = Inr (TrimSpace content1, TrimSpace content2)
       \<and> Extractor_Extract NewExtractor response =
           Inr (TrimSpace content1, TrimSpace content2, ''standard_format'')
       \<and> ExtractWithFallback NewExtractor response =
           (TrimSpace content1, TrimSpace content2, ''standard_format'')"
proof -
  have m: "FindAllStringSubmatch AnyTag response =
           content1 # content2 # FindAllStringSubmatch AnyTag post"
    unfolding assms(5) using assms(1-4) by (rule find_two_blocks)
  from assms(3,4) have ne: "TrimSpace content1 \<noteq> []" "TrimSpace content2 \<noteq> []"
    by (auto simp: wellFormedBlock_def)
  from m ne have s: "StandardFormatStrategy_Extract response =
                       Inr (TrimSpace content1, TrimSpace content2)"
    by (simp add: StandardFormatStrategy_Extract_def)
  then show ?thesis
    by (simp add: ExtractWithFallback_def Extractor_Extract_def NewExtractor_def)
qed

lemma standard_format_on_two_blocks_example:
  "\<not> Contains ''Use `Double`:\<newline>'' ''```''
   \<and> \<not> Contains ''\<newline>and the tests:\<newline>'' ''```''
   \<and> wellFormedBlock ''go'' ''package main\<newline>func Double(x int) int { return 2 * x }\<newline>''
   \<and> wellFormedBlock [] ''package main\<newline>func TestDouble(t *testing.T) {}\<newline>''
   \<and> ExtractWithFallback NewExtractor
        (''Use `Double`:\<newline>''
         @ fencedBlock ''go'' ''package main\<newline>func Double(x int) int { return 2 * x }\<newline>''
         @ ''\<newline>and the tests:\<newline>''
         @ fencedBlock [] ''package main\<newline>func TestDouble(t *testing.T) {}\<newline>''
         @ ''\<newline>Done.'') =
       (''package main\<newline>func Double(x int) int { return 2 * x }'',
        ''package main\<newline>func TestDouble(t *testing.T) {}'', ''standard_format'')"
proof -
  have 1: "\<not> Contains ''Use `Double`:\<newline>'' ''```''" by code_simp
  have 2: "\<not> Contains ''\<newline>and the tests:\<newline>'' ''```''" by code_simp
  have 3: "wellFormedBlock ''go''
             ''package main\<newline>func Double(x int) int { return 2 * x }\<newline>''"
    by code_simp
  have 4: "wellFormedBlock [] ''package main\<newline>func TestDouble(t *testing.T) {}\<newline>''"
    by code_simp
  have 5: "TrimSpace ''package main\<newline>func Double(x int) int { return 2 * x }\<newline>'' =
           ''package main\<newline>func Double(x int) int { return 2 * x }''"
    by code_simp
  have 6: "TrimSpace ''package main\<newline>func TestDouble(t *testing.T) {}\<newline>'' =
           ''package main\<newline>func TestDouble(t *testing.T) {}''"
    by code_simp
  show ?thesis
    using standard_format_on_two_blocks [OF 1 2 3 4 refl, of "''\<newline>Done.''"] 1 2 3 4 5 6
    by simp
qed

text \<open>
  Claim C7.  For every text with at least two well-formed fenced code blocks, each
  non-empty after trimming, \<open>StandardFormatStrategy\<close> is to succeed with the first block
  as main code and the second as test code.  The code does not keep this for a tag that
  is not made of lower-case letters.  Of two blocks tagged \<open>c++\<close>, with contents that
  hold no backtick and are not blank, the expression finds neither opening fence; it
  takes the first closing fence for an opening one and captures the empty text up to the
  second opening fence.  \<open>StandardFormatStrategy\<close> fails with one match, the extractor
  returns an empty main code through the single-file fallback, and a \<open>cpp\<close> job whose
  model answers with that text aborts with \<open>extraction_failed\<close> before any compile call.
\<close>

theorem standard_format_misses_tagged_blocks:
  "\<not> Contains ''int twice(int x) { return 2 * x; }\<newline>'' ''`''
   \<and> \<not> Contains ''int main() { return twice(2) == 4 ? 0 : 1; }\<newline>'' ''`''
   \<and> TrimSpace ''int twice(int x) { return 2 * x; }\<newline>'' \<noteq> []
   \<and> TrimSpace ''int main() { return twice(2) == 4 ? 0 : 1; }\<newline>'' \<noteq> []
   \<and> FindAllStringSubmatch AnyTag
       (fencedBlock ''c++'' ''int twice(int x) { return 2 * x; }\<newline>''
        @ ''\<newline>''
        @ fencedBlock ''c++'' ''int main() { return twice(2) == 4 ? 0 : 1; }\<newline>'') = [[]]
   \<and> StandardFormatStrategy_Extract
       (fencedBlock ''c++'' ''int twice(int x) { return 2 * x; }\<newline>''
        @ ''\<newline>''
        @ fencedBlock ''c++'' ''int main() { return twice(2) == 4 ? 0 : 1; }\<newline>'') =
       Inl ''standard_format: expected at least 2 code blocks, found 1''
   \<and> ExtractWithFallback NewExtractor
       (fencedBlock ''c++'' ''int twice(int x) { return 2 * x; }\<newline>''
        @ ''\<newline>''
        @ fencedBlock ''c++'' ''int main() { return twice(2) == 4 ? 0 : 1; }\<newline>'') =
       ([], [], ''single_file_fallback'')
   \<and> fst (iterationBody
        ((sampleWorld (\<lambda>i. ErrorTypeSyntax))
           \<lparr>GetOllamaResponse := (\<lambda>i prompt tokens model.
              (fencedBlock ''c++'' ''int twice(int x) { return 2 * x; }\<newline>''
               @ ''\<newline>''
               @ fencedBlock ''c++'' ''int main() { return twice(2) == 4 ? 0 : 1; }\<newline>'',
               [], None))\<rparr>)
        1 \<lparr>job = sampleJob\<lparr>Language := ''cpp''\<rparr>, events = []\<rparr>) = Return
   \<and> AbortReason (job (snd (iterationBody
        ((sampleWorld (\<lambda>i. ErrorTypeSyntax))
           \<lparr>GetOllamaResponse := (\<lambda>i prompt tokens model.
              (fencedBlock ''c++'' ''int twice(int x) { return 2 * x; }\<newline>''
               @ ''\<newline>''
               @ fencedBlock ''c++'' ''int main() { return twice(2) == 4 ? 0 : 1; }\<newline>'',
               [], None))\<rparr>)
        1 \<lparr>job = sampleJob\<lparr>Language := ''cpp''\<rparr>, events = []\<rparr>))) = ''extraction_failed''"
  by code_simp

section \<open>The controller's abort policy\<close>

lemma buildPrompt_IterationCount [simp]:
  "buildPrompt (j\<lparr>Metrics := (Metrics j)\<lparr>IterationCount := n\<rparr>\<rparr>) iteration = buildPrompt j iteration"
  by (simp add: buildPrompt_def errorFeedback_def Let_def)

lemma allSame_iff: "allSame es t \<longleftrightarrow> (\<forall>e \<in> set es. e = t)"
  by (induction es) auto

lemma last_three_same:
  "SameErrorThreshold \<le> length (h @ [k]) \<and>
   allSame (drop (length (h @ [k]) - SameErrorThreshold) (h @ [k])) k
   \<longleftrightarrow> (\<exists>earlier. h = earlier @ [k, k])"
proof
  assume a: "SameErrorThreshold \<le> length (h @ [k]) \<and>
      allSame (drop (length (h @ [k]) - SameErrorThreshold) (h @ [k])) k"
  then have len: "2 \<le> length h" by (simp add: SameErrorThreshold_def)
  define t where "t = drop (length h - 2) h"
  have lt: "length t = 2" using len by (simp add: t_def)
  from a len have "allSame (t @ [k]) k" by (simp add: SameErrorThreshold_def t_def)
  then have "\<forall>e \<in> set t. e = k" by (simp add: allSame_iff)
  with lt have "t = [k, k]"
    by (cases t; cases "tl t"; cases "tl (tl t)") auto
  moreover have "h = take (length h - 2) h @ t" by (simp add: t_def)
  ultimately show "\<exists>earlier. h = earlier @ [k, k]" by metis
next
  assume "\<exists>earlier. h = earlier @ [k, k]"
  then obtain earlier where "h = earlier @ [k, k]" by blast
  then show "SameErrorThreshold \<le> length (h @ [k]) \<and>
      allSame (drop (length (h @ [k]) - SameErrorThreshold) (h @ [k])) k"
    by (simp add: SameErrorThreshold_def)
qed

lemma abortJob_result:
  "abortJob reason message r =
     (Return, r\<lparr>job := (job r)\<lparr>Status := ''aborted'', AbortReason := reason\<rparr>,
               events := events r @
                 [AbortMessage reason (IterationCount (Metrics (job r))) message
                    (if ErrorHistory (LLMCtx (job r)) \<noteq> []
                     then ErrorType_String (last (ErrorHistory (LLMCtx (job r))))
                     else ''unknown'')]\<rparr>)"
  by (simp add: abortJob_def sendAbortMessage_def Let_def)

lemma iterationBody_analysed:
  assumes "analysed w iteration r result"
  shows "\<exists>r1. iterationBody w iteration r = errorAnalysis iteration result r1 \<and>
              ErrorHistory (LLMCtx (job r1)) = ErrorHistory (LLMCtx (job r)) \<and>
              MaxIterations (job r1) = MaxIterations (job r) \<and>
              Status (job r1) = Status (job r) \<and>
              AbortReason (job r1) = AbortReason (job r)"
  using assms
  by (auto simp: analysed_def iterationBody_def extractAndCompile_def compileAndAnalyze_def
        sendIterationMessage_def Let_def split: prod.splits option.splits)

lemma errorAnalysis_same_error:
  assumes "sameErrorGuardFires (ErrorHistory (LLMCtx (job r))) (ErrorType result)"
    and "ErrorType result \<noteq> ErrorTypeInfrastructure"
  shows "\<exists>r'. errorAnalysis iteration result r = (Return, r') \<and>
           Status (job r') = ''aborted'' \<and> AbortReason (job r') = ''same_error_threshold'' \<and>
           SameErrorCount (Metrics (job r')) = 3"
proof -
  from assms(1) have "\<exists>earlier. ErrorHistory (LLMCtx (job r)) = earlier @ [ErrorType result, ErrorType result]"
    and ns: "ErrorType result \<noteq> ErrorTypeSuccess"
    by (auto simp: sameErrorGuardFires_def)
  then have g: "SameErrorThreshold \<le> length (ErrorHistory (LLMCtx (job r)) @ [ErrorType result]) \<and>
      allSame (drop (length (ErrorHistory (LLMCtx (job r)) @ [ErrorType result]) - SameErrorThreshold)
         (ErrorHistory (LLMCtx (job r)) @ [ErrorType result])) (ErrorType result)"
    by (simp only: last_three_same)
  show ?thesis
    using g ns assms(2)
    by (simp add: errorAnalysis_def Let_def abortJob_result SameErrorThreshold_def)
qed

lemma errorAnalysis_max_iterations:
  assumes "\<not> sameErrorGuardFires (ErrorHistory (LLMCtx (job r))) (ErrorType result)"
    and "ErrorType result \<noteq> ErrorTypeInfrastructure"
    and "iteration \<ge> MaxIterations (job r)"
  shows "\<exists>r'. errorAnalysis iteration result r = (Return, r') \<and>
           Status (job r') = ''aborted'' \<and> AbortReason (job r') = ''max_iterations_reached'' \<and>
           FinalResult (job r') = Some result"
proof -
  have g: "\<not> (SameErrorThreshold \<le> length (ErrorHistory (LLMCtx (job r)) @ [ErrorType result]) \<and>
      allSame (drop (length (ErrorHistory (LLMCtx (job r)) @ [ErrorType result]) - SameErrorThreshold)
         (ErrorHistory (LLMCtx (job r)) @ [ErrorType result])) (ErrorType result)
      \<and> ErrorType result \<noteq> ErrorTypeSuccess)"
    using assms(1) unfolding sameErrorGuardFires_def last_three_same [symmetric] by blast
  show ?thesis
    using g assms(2,3)
    by (auto simp add: errorAnalysis_def Let_def abortJob_result)
qed

text \<open>
  With the placeholder backends every iteration returns: one that gets as far as the
  compile call aborts with \<open>compilation_failed\<close>.  The analysis of results below is
  about the controller with a backend that returns results.
\<close>

lemma placeholder_backend_returns:
  assumes "compileLanguage w = (\<lambda>i language mainCode testCode. compileLanguage_placeholder language)"
  shows "fst (iterationBody w iteration r) = Return"
  using assms
  by (auto simp: iterationBody_def extractAndCompile_def compileAndAnalyze_def Let_def
        abortJob_result compileLanguage_placeholder_def split: prod.splits option.splits)

text \<open>
  Claim C3.  When an analysed iteration's error kind is neither \<open>success\<close> nor
  \<open>infrastructure\<close> and the two kinds recorded last are the same kind, so that the three
  most recent kinds are identical, the iteration returns with status \<open>aborted\<close>, abort
  reason \<open>same_error_threshold\<close> and \<open>SameErrorCount\<close> 3, whatever was recorded earlier.
\<close>

theorem same_error_threshold_abort:
  assumes "analysed w iteration r result"
    and "ErrorType result \<noteq> ErrorTypeSuccess"
    and "ErrorType result \<noteq> ErrorTypeInfrastructure"
    and "ErrorHistory (LLMCtx (job r)) = earlier @ [ErrorType result, ErrorType result]"
  shows "\<exists>r'. iterationBody w iteration r = (Return, r') \<and>
           Status (job r') = ''aborted'' \<and> AbortReason (job r') = ''same_error_threshold'' \<and>
           SameErrorCount (Metrics (job r')) = 3"
proof -
  from assms(1) obtain r1 where b: "iterationBody w iteration r = errorAnalysis iteration result r1"
    and h: "ErrorHistory (LLMCtx (job r1)) = ErrorHistory (LLMCtx (job r))"
    using iterationBody_analysed by blast
  from assms(2,4) h have "sameErrorGuardFires (ErrorHistory (LLMCtx (job r1))) (ErrorType result)"
    by (auto simp: sameErrorGuardFires_def)
  from errorAnalysis_same_error [OF this assms(3)] b show ?thesis by simp
qed

theorem same_error_threshold_abort_witness:
  "analysed (sampleWorld (\<lambda>i. ErrorTypeSyntax)) 3
     (sampleRun [ErrorTypeType, ErrorTypeSyntax, ErrorTypeSyntax]) (failedResult ErrorTypeSyntax)
   \<and> ErrorHistory (LLMCtx (job (sampleRun [ErrorTypeType, ErrorTypeSyntax, ErrorTypeSyntax]))) =
       [ErrorTypeType] @ [ErrorTypeSyntax, ErrorTypeSyntax]
   \<and> fst (iterationBody (sampleWorld (\<lambda>i. ErrorTypeSyntax)) 3
        (sampleRun [ErrorTypeType, ErrorTypeSyntax, ErrorTypeSyntax])) = Return
   \<and> AbortReason (job (snd (iterationBody (sampleWorld (\<lambda>i. ErrorTypeSyntax)) 3
        (sampleRun [ErrorTypeType, ErrorTypeSyntax, ErrorTypeSyntax])))) = ''same_error_threshold''
   \<and> Status (job (snd (iterationBody (sampleWorld (\<lambda>i. ErrorTypeSyntax)) 3
        (sampleRun [ErrorTypeType, ErrorTypeSyntax, ErrorTypeSyntax])))) = ''aborted''
   \<and> SameErrorCount (Metrics (job (snd (iterationBody (sampleWorld (\<lambda>i. ErrorTypeSyntax)) 3
        (sampleRun [ErrorTypeType, ErrorTypeSyntax, ErrorTypeSyntax]))))) = 3"
proof -
  have 1: "analysed (sampleWorld (\<lambda>i. ErrorTypeSyntax)) 3
     (sampleRun [ErrorTypeType, ErrorTypeSyntax, ErrorTypeSyntax]) (failedResult ErrorTypeSyntax)"
    by code_simp
  have 2: "ErrorType (failedResult ErrorTypeSyntax) \<noteq> ErrorTypeSuccess"
    and 3: "ErrorType (failedResult ErrorTypeSyntax) \<noteq> ErrorTypeInfrastructure"
    by (simp_all add: failedResult_def)
  have 4: "ErrorHistory (LLMCtx (job (sampleRun [ErrorTypeType, ErrorTypeSyntax, ErrorTypeSyntax]))) =
       [ErrorTypeType] @ [ErrorType (failedResult ErrorTypeSyntax), ErrorType (failedResult ErrorTypeSyntax)]"
    by (simp add: sampleRun_def failedResult_def)
  from same_error_threshold_abort [OF 1 2 3 4] 1 4 show ?thesis
    by (auto simp: failedResult_def)
qed

text \<open>
  Claim C5.  When the iteration index equals \<open>MaxIterations\<close>, the analysed result is not
  an infrastructure error and the stuck-loop guard does not fire, the iteration returns
  with status \<open>aborted\<close>, abort reason \<open>max_iterations_reached\<close> and that result as
  \<open>FinalResult\<close>.
\<close>

theorem max_iterations_abort:
  assumes "analysed w iteration r result"
    and "iteration = MaxIterations (job r)"
    and "ErrorType result \<noteq> ErrorTypeInfrastructure"
    and "\<not> sameErrorGuardFires (ErrorHistory (LLMCtx (job r))) (ErrorType result)"
  shows "\<exists>r'. iterationBody w iteration r = (Return, r') \<and>
           Status (job r') = ''aborted'' \<and> AbortReason (job r') = ''max_iterations_reached'' \<and>
           FinalResult (job r') = Some result"
proof -
  from assms(1) obtain r1 where b: "iterationBody w iteration r = errorAnalysis iteration result r1"
    and h: "ErrorHistory (LLMCtx (job r1)) = ErrorHistory (LLMCtx (job r))"
    and m: "MaxIterations (job r1) = MaxIterations (job r)"
    using iterationBody_analysed by blast
  from assms(4) h have 1: "\<not> sameErrorGuardFires (ErrorHistory (LLMCtx (job r1))) (ErrorType result)"
    by simp
  from assms(2) m have 2: "iteration \<ge> MaxIterations (job r1)" by simp
  from errorAnalysis_max_iterations [OF 1 assms(3) 2] b show ?thesis by simp
qed

theorem max_iterations_abort_witness:
  "analysed (sampleWorld (\<lambda>i. ErrorTypeLogic)) 3
     (sampleRun [ErrorTypeType, ErrorTypeSyntax]) (failedResult ErrorTypeLogic)
   \<and> MaxIterations (job (sampleRun [ErrorTypeType, ErrorTypeSyntax])) = 3
   \<and> \<not> sameErrorGuardFires (ErrorHistory (LLMCtx (job (sampleRun [ErrorTypeType, ErrorTypeSyntax]))))
          ErrorTypeLogic
   \<and> fst (iterationBody (sampleWorld (\<lambda>i. ErrorTypeLogic)) 3
        (sampleRun [ErrorTypeType, ErrorTypeSyntax])) = Return
   \<and> AbortReason (job (snd (iterationBody (sampleWorld (\<lambda>i. ErrorTypeLogic)) 3
        (sampleRun [ErrorTypeType, ErrorTypeSyntax])))) = ''max_iterations_reached''
   \<and> Status (job (snd (iterationBody (sampleWorld (\<lambda>i. ErrorTypeLogic)) 3
        (sampleRun [ErrorTypeType, ErrorTypeSyntax])))) = ''aborted''
   \<and> FinalResult (job (snd (iterationBody (sampleWorld (\<lambda>i. ErrorTypeLogic)) 3
        (sampleRun [ErrorTypeType, ErrorTypeSyntax])))) = Some (failedResult ErrorTypeLogic)"
proof -
  have 1: "analysed (sampleWorld (\<lambda>i. ErrorTypeLogic)) 3
     (sampleRun [ErrorTypeType, ErrorTypeSyntax]) (failedResult ErrorTypeLogic)"
    by code_simp
  have 2: "3 = MaxIterations (job (sampleRun [ErrorTypeType, ErrorTypeSyntax]))"
    by (simp add: sampleRun_def sampleJob_def)
  have 3: "ErrorType (failedResult ErrorTypeLogic) \<noteq> ErrorTypeInfrastructure"
    by (simp add: failedResult_def)
  have 4: "\<not> sameErrorGuardFires (ErrorHistory (LLMCtx (job (sampleRun [ErrorTypeType, ErrorTypeSyntax]))))
          (ErrorType (failedResult ErrorTypeLogic))"
    by (simp add: sameErrorGuardFires_def sampleRun_def failedResult_def append_eq_Cons_conv)
  from max_iterations_abort [OF 1 2 3 4] 1 2 4 show ?thesis
    by (auto simp: failedResult_def)
qed

section \<open>The prompt size guard\<close>

lemma promptsSent_append [simp]: "promptsSent (xs @ ys) = promptsSent xs @ promptsSent ys"
  by (simp add: promptsSent_def List.map_filter_def)

lemma promptsSent_Nil [simp]: "promptsSent [] = []"
  by (simp add: promptsSent_def List.map_filter_def)

lemma promptsSent_Cons [simp]:
  "promptsSent (e # es) =
     (case requestPrompt e of None \<Rightarrow> promptsSent es | Some p \<Rightarrow> p # promptsSent es)"
  by (simp add: promptsSent_def List.map_filter_def split: option.splits)

lemma abortJob_prompts:
  "abortJob reason message r = (flow, r') \<Longrightarrow> promptsSent (events r') = promptsSent (events r)"
  by (auto simp: abortJob_result)

lemma errorAnalysis_prompts:
  "errorAnalysis iteration result r = (flow, r') \<Longrightarrow>
   promptsSent (events r') = promptsSent (events r)"
  by (auto simp: errorAnalysis_def Let_def split: if_splits dest!: abortJob_prompts)

lemma compileAndAnalyze_prompts:
  "compileAndAnalyze w iteration mainCode testCode r = (flow, r') \<Longrightarrow>
   promptsSent (events r') = promptsSent (events r)"
  by (auto simp: compileAndAnalyze_def Let_def sendIterationMessage_def
        sendCompletionMessage_def
      split: if_splits option.splits prod.splits
      dest!: abortJob_prompts errorAnalysis_prompts)

lemma extractAndCompile_prompts:
  "extractAndCompile w iteration llmResponse r = (flow, r') \<Longrightarrow>
   promptsSent (events r') = promptsSent (events r)"
  by (auto simp: extractAndCompile_def split: if_splits prod.splits
      dest!: abortJob_prompts compileAndAnalyze_prompts)

lemma buildPrompt_size: "snd (buildPrompt j iteration) = int (length (fst (buildPrompt j iteration)))"
  by (simp add: buildPrompt_def Let_def)

lemma iterationBody_prompts:
  assumes "iterationBody w iteration r = (flow, r')"
  shows "promptsSent (events r') = promptsSent (events r) \<or>
         (promptsSent (events r') = promptsSent (events r) @ [fst (buildPrompt (job r) iteration)] \<and>
          fits (fst (buildPrompt (job r) iteration)))"
proof -
  have sz: "snd (buildPrompt (job r) iteration) = int (length (fst (buildPrompt (job r) iteration)))"
    by (rule buildPrompt_size)
  show ?thesis
    using assms sz
    by (auto simp: iterationBody_def Let_def fits_def
        split: if_splits option.splits prod.splits
        dest!: abortJob_prompts extractAndCompile_prompts)
qed

lemma iterationBody_fits:
  "iterationBody w iteration r = (flow, r') \<Longrightarrow> list_all fits (promptsSent (events r)) \<Longrightarrow>
   list_all fits (promptsSent (events r'))"
  by (auto dest!: iterationBody_prompts)

lemma runLoop_fits:
  "list_all fits (promptsSent (events r)) \<Longrightarrow>
   list_all fits (promptsSent (events (snd (runLoop w iteration r))))"
proof (induction w iteration r rule: runLoop.induct)
  case (1 w iteration r)
  show ?case
  proof (cases "iteration \<le> MaxIterations (job r)")
    case False
    with 1 show ?thesis by (simp add: runLoop.simps)
  next
    case True
    obtain flow r' where b: "iterationBody w iteration r = (flow, r')"
      by (cases "iterationBody w iteration r") auto
    from b "1.prems" have f: "list_all fits (promptsSent (events r'))"
      by (rule iterationBody_fits)
    show ?thesis
    proof (cases flow)
      case Continue
      from "1.IH" [OF True b [symmetric] Continue f] True b Continue show ?thesis
        by (simp add: runLoop.simps [of w iteration r])
    next
      case Return
      with True b f show ?thesis by (simp add: runLoop.simps [of w iteration r])
    next
      case Panic
      with True b f show ?thesis by (simp add: runLoop.simps [of w iteration r])
    qed
  qed
qed

lemma RunCompilationJob_events:
  "events (RunCompilationJob w job0) =
   events (snd (runLoop w 1 \<lparr>job = job0\<lparr>Status := ''running'', StartTime := timeNow w\<rparr>, events = []\<rparr>))"
  by (simp add: RunCompilationJob_def runBody_def deferredHandler_def Let_def
      split: prod.splits Flow.splits)

lemma RunCompilationJob_fits:
  "list_all fits (promptsSent (events (RunCompilationJob w job0)))"
  unfolding RunCompilationJob_events by (rule runLoop_fits) simp

text \<open>
  Claim C4.  When the prompt built in an iteration is larger than \<open>MaxPromptSize\<close>, the
  iteration returns with status \<open>aborted\<close> and abort reason \<open>prompt_size_exceeded\<close>, and
  the only call it makes is the abort message: no request to the model client and none
  to the compile backend.  Over a whole run, every prompt that reaches the model client
  is at most \<open>MaxPromptSize\<close> bytes long.
\<close>

theorem oversized_prompt_aborts:
  "(\<not> ctxDone w iteration \<and> \<not> sinceStart w iteration > Timeout (job r) \<and>
    snd (buildPrompt (job r) iteration) > MaxPromptSize \<longrightarrow>
      (\<exists>r' message kind.
         iterationBody w iteration r = (Return, r') \<and>
         Status (job r') = ''aborted'' \<and> AbortReason (job r') = ''prompt_size_exceeded'' \<and>
         events r' = events r @ [AbortMessage ''prompt_size_exceeded'' iteration message kind]))
   \<and> list_all (\<lambda>prompt. int (length prompt) \<le> MaxPromptSize)
        (promptsSent (events (RunCompilationJob w job0)))"
proof
  show "\<not> ctxDone w iteration \<and> \<not> sinceStart w iteration > Timeout (job r) \<and>
    snd (buildPrompt (job r) iteration) > MaxPromptSize \<longrightarrow>
      (\<exists>r' message kind.
         iterationBody w iteration r = (Return, r') \<and>
         Status (job r') = ''aborted'' \<and> AbortReason (job r') = ''prompt_size_exceeded'' \<and>
         events r' = events r @ [AbortMessage ''prompt_size_exceeded'' iteration message kind])"
    by (auto simp: iterationBody_def Let_def abortJob_result split: prod.splits)
next
  have "list_all fits (promptsSent (events (RunCompilationJob w job0)))"
    by (rule RunCompilationJob_fits)
  then show "list_all (\<lambda>prompt. int (length prompt) \<le> MaxPromptSize)
        (promptsSent (events (RunCompilationJob w job0)))"
    by (simp add: fits_def [abs_def])
qed

theorem oversized_prompt_aborts_witness:
  "\<not> ctxDone (sampleWorld (\<lambda>i. ErrorTypeSyntax)) 1
   \<and> \<not> sinceStart (sampleWorld (\<lambda>i. ErrorTypeSyntax)) 1 >
        Timeout (job \<lparr>job = sampleJob\<lparr>UserPrompt := replicate 51200 (CHR ''a'')\<rparr>, events = []\<rparr>)
   \<and> snd (buildPrompt
        (job \<lparr>job = sampleJob\<lparr>UserPrompt := replicate 51200 (CHR ''a'')\<rparr>, events = []\<rparr>) 1)
        > MaxPromptSize
   \<and> fst (iterationBody (sampleWorld (\<lambda>i. ErrorTypeSyntax)) 1
        \<lparr>job = sampleJob\<lparr>UserPrompt := replicate 51200 (CHR ''a'')\<rparr>, events = []\<rparr>) = Return
   \<and> AbortReason (job (snd (iterationBody (sampleWorld (\<lambda>i. ErrorTypeSyntax)) 1
        \<lparr>job = sampleJob\<lparr>UserPrompt := replicate 51200 (CHR ''a'')\<rparr>, events = []\<rparr>))) =
       ''prompt_size_exceeded''
   \<and> promptsSent (events (snd (iterationBody (sampleWorld (\<lambda>i. ErrorTypeSyntax)) 1
        \<lparr>job = sampleJob\<lparr>UserPrompt := replicate 51200 (CHR ''a'')\<rparr>, events = []\<rparr>))) = []"
proof -
  have 1: "\<not> ctxDone (sampleWorld (\<lambda>i. ErrorTypeSyntax)) 1"
    by (simp add: sampleWorld_def)
  have 2: "\<not> sinceStart (sampleWorld (\<lambda>i. ErrorTypeSyntax)) 1 >
        Timeout (job \<lparr>job = sampleJob\<lparr>UserPrompt := replicate 51200 (CHR ''a'')\<rparr>, events = []\<rparr>)"
    by (simp add: sampleWorld_def sampleJob_def)
  have 3: "snd (buildPrompt
        (job \<lparr>job = sampleJob\<lparr>UserPrompt := replicate 51200 (CHR ''a'')\<rparr>, events = []\<rparr>) 1)
        > MaxPromptSize"
    by (simp add: buildPrompt_def sampleJob_def formatInstructions_def
        goFormatInstructions_def MaxPromptSize_def Let_def)
  from oversized_prompt_aborts
    [of "sampleWorld (\<lambda>i. ErrorTypeSyntax)" 1
        "\<lparr>job = sampleJob\<lparr>UserPrompt := replicate 51200 (CHR ''a'')\<rparr>, events = []\<rparr>"
        sampleJob] 1 2 3
  show ?thesis by auto
qed

section \<open>Terminal states\<close>

text \<open>Whatever the run did, the deferred handler leaves the status \<open>completed\<close>.\<close>

lemma RunCompilationJob_always_completed:
  "Status (job (RunCompilationJob w job0)) = ''completed''"
  by (simp add: RunCompilationJob_def deferredHandler_def Let_def split: prod.splits)

text \<open>
  Claim C1.  The states \<open>completed\<close> and \<open>aborted\<close> are to be absorbing: once the status is
  \<open>aborted\<close>, no later step of the job, the deferred handler included, changes it.  The
  code does not keep this.  For the sample job with a context that is already done, the
  body of \<open>RunCompilationJob\<close> returns with status \<open>aborted\<close> and abort reason
  \<open>user_cancelled\<close>; the deferred handler then runs and the job ends with status
  \<open>completed\<close> (and the same abort reason), as every job does.
\<close>

theorem deferred_handler_overwrites_aborted:
  "Status (job (RunCompilationJob w job0)) = ''completed''
   \<and> runBody ((sampleWorld (\<lambda>i. ErrorTypeSyntax))\<lparr>ctxDone := (\<lambda>i. True)\<rparr>) sampleJob =
     (Return,
      \<lparr>job = sampleJob\<lparr>Status := ''aborted'', AbortReason := ''user_cancelled''\<rparr>,
       events = [AbortMessage ''user_cancelled'' 0 ''User cancelled execution'' ''unknown'']\<rparr>)
   \<and> Status (job (RunCompilationJob
        ((sampleWorld (\<lambda>i. ErrorTypeSyntax))\<lparr>ctxDone := (\<lambda>i. True)\<rparr>) sampleJob)) = ''completed''
   \<and> AbortReason (job (RunCompilationJob
        ((sampleWorld (\<lambda>i. ErrorTypeSyntax))\<lparr>ctxDone := (\<lambda>i. True)\<rparr>) sampleJob)) =
       ''user_cancelled''"
proof -
  have "runBody ((sampleWorld (\<lambda>i. ErrorTypeSyntax))\<lparr>ctxDone := (\<lambda>i. True)\<rparr>) sampleJob =
     (Return,
      \<lparr>job = sampleJob\<lparr>Status := ''aborted'', AbortReason := ''user_cancelled''\<rparr>,
       events = [AbortMessage ''user_cancelled'' 0 ''User cancelled execution'' ''unknown'']\<rparr>)"
    by code_simp
  moreover have "AbortReason (job (RunCompilationJob
        ((sampleWorld (\<lambda>i. ErrorTypeSyntax))\<lparr>ctxDone := (\<lambda>i. True)\<rparr>) sampleJob)) =
       ''user_cancelled''"
    by code_simp
  ultimately show ?thesis by (simp add: RunCompilationJob_always_completed)
qed

section \<open>Infrastructure errors\<close>

text \<open>
  What the error analysis does with an infrastructure error depends on the iteration
  index alone: it goes on to the next pass of the loop in iteration 1 and aborts in every
  later iteration, whatever the history holds.
\<close>

lemma errorAnalysis_infrastructure:
  assumes "ErrorType result = ErrorTypeInfrastructure"
  shows "fst (errorAnalysis iteration result r) = (if iteration < 2 then Continue else Return)"
    and "2 \<le> iteration \<Longrightarrow>
         AbortReason (job (snd (errorAnalysis iteration result r))) =
           ''infrastructure_error_persistent''"
  using assms by (simp_all add: errorAnalysis_def Let_def abortJob_result)








section \<open>The prompt builder's feedback section\<close>

lemma errorAnalysis_Continue:
  "errorAnalysis i result r = (Continue, r') \<Longrightarrow>
   LastErrorType (Metrics (job r')) = ErrorType result \<and>
   LastErrorMessage (LLMCtx (job r')) = Join (CompileErrors result) ''; '' \<and>
   ErrorHistory (LLMCtx (job r')) \<noteq> []"
  by (auto simp: errorAnalysis_def Let_def abortJob_result split: if_splits)

lemma compileAndAnalyze_Continue:
  "compileAndAnalyze w i mainCode testCode r = (Continue, r') \<Longrightarrow>
   \<exists>result. compileLanguage w i (Language (job r)) mainCode testCode = (Some result, None) \<and>
     LastErrorType (Metrics (job r')) = ErrorType result \<and>
     LastErrorMessage (LLMCtx (job r')) = Join (CompileErrors result) ''; '' \<and>
     ErrorHistory (LLMCtx (job r')) \<noteq> []"
  by (auto simp: compileAndAnalyze_def Let_def abortJob_result
      split: prod.splits option.splits if_splits dest!: errorAnalysis_Continue)

lemma extractAndCompile_Continue:
  "extractAndCompile w i llmResponse r = (Continue, r') \<Longrightarrow>
   \<exists>result mainCode testCode.
     compileLanguage w i (Language (job r)) mainCode testCode = (Some result, None) \<and>
     LastErrorType (Metrics (job r')) = ErrorType result \<and>
     LastErrorMessage (LLMCtx (job r')) = Join (CompileErrors result) ''; '' \<and>
     ErrorHistory (LLMCtx (job r')) \<noteq> []"
  by (auto simp: extractAndCompile_def abortJob_result
      split: prod.splits if_splits dest!: compileAndAnalyze_Continue)

lemma iterationBody_Continue:
  assumes "iterationBody w i r = (Continue, r')"
  shows "\<exists>result mainCode testCode.
     compileLanguage w i (Language (job r)) mainCode testCode = (Some result, None) \<and>
     LastErrorType (Metrics (job r')) = ErrorType result \<and>
     LastErrorMessage (LLMCtx (job r')) = Join (CompileErrors result) ''; '' \<and>
     ErrorHistory (LLMCtx (job r')) \<noteq> []"
proof -
  from assms obtain llmResponse r1 where
    e: "extractAndCompile w i llmResponse r1 = (Continue, r')" and l: "Language (job r1) = Language (job r)"
    by (auto simp: iterationBody_def Let_def abortJob_result
        split: prod.splits option.splits if_splits)
  from extractAndCompile_Continue [OF e] l show ?thesis by simp
qed

text \<open>
  Claim C9.  For an iteration index greater than 1 and a non-empty error history,
  \<open>buildPrompt\<close> appends to the user prompt and the format instructions a feedback section
  with the name of the error kind recorded last, the first 500 bytes of its diagnostic
  message (marked with \<open>...\<close> when the message was longer), and then the instruction to
  fix and regenerate; for iteration 1, and for an empty history, nothing is appended.
  The kind and the message recorded last are those of the previous iteration: an
  iteration after which the loop goes on has stored the kind and the joined compile
  errors of the result that its backend returned.
\<close>

theorem buildPrompt_feedback:
  "(1 < iteration \<and> ErrorHistory (LLMCtx j) \<noteq> [] \<longrightarrow>
      fst (buildPrompt j iteration) =
        UserPrompt j @ formatInstructions (Language j)
        @ ''\<newline>\<newline>=== ERROR FEEDBACK FROM ITERATION '' @ itoa (iteration - 1) @ '' ===\<newline>''
        @ ''Error Type: '' @ ErrorType_String (LastErrorType (Metrics j)) @ ''\<newline>''
        @ ''Error Message: '' @ take 500 (LastErrorMessage (LLMCtx j))
        @ (if length (LastErrorMessage (LLMCtx j)) \<le> 500 then [] else ''...'') @ ''\<newline>''
        @ ''Please fix the error and regenerate the code.\<newline>'')
   \<and> (iteration \<le> 1 \<or> ErrorHistory (LLMCtx j) = [] \<longrightarrow>
      fst (buildPrompt j iteration) = UserPrompt j @ formatInstructions (Language j))
   \<and> (iterationBody w i r = (Continue, r') \<longrightarrow>
      (\<exists>result mainCode testCode.
         compileLanguage w i (Language (job r)) mainCode testCode = (Some result, None) \<and>
         LastErrorType (Metrics (job r')) = ErrorType result \<and>
         LastErrorMessage (LLMCtx (job r')) = Join (CompileErrors result) ''; '' \<and>
         ErrorHistory (LLMCtx (job r')) \<noteq> []))"
proof (intro conjI impI)
  assume "1 < iteration \<and> ErrorHistory (LLMCtx j) \<noteq> []"
  then show "fst (buildPrompt j iteration) =
        UserPrompt j @ formatInstructions (Language j)
        @ ''\<newline>\<newline>=== ERROR FEEDBACK FROM ITERATION '' @ itoa (iteration - 1) @ '' ===\<newline>''
        @ ''Error Type: '' @ ErrorType_String (LastErrorType (Metrics j)) @ ''\<newline>''
        @ ''Error Message: '' @ take 500 (LastErrorMessage (LLMCtx j))
        @ (if length (LastErrorMessage (LLMCtx j)) \<le> 500 then [] else ''...'') @ ''\<newline>''
        @ ''Please fix the error and regenerate the code.\<newline>''"
    by (simp add: buildPrompt_def errorFeedback_def truncate_string_def Let_def)
next
  assume "iteration \<le> 1 \<or> ErrorHistory (LLMCtx j) = []"
  then show "fst (buildPrompt j iteration) = UserPrompt j @ formatInstructions (Language j)"
    by (auto simp: buildPrompt_def Let_def)
next
  assume "iterationBody w i r = (Continue, r')"
  then show "\<exists>result mainCode testCode.
         compileLanguage w i (Language (job r)) mainCode testCode = (Some result, None) \<and>
         LastErrorType (Metrics (job r')) = ErrorType result \<and>
         LastErrorMessage (LLMCtx (job r')) = Join (CompileErrors result) ''; '' \<and>
         ErrorHistory (LLMCtx (job r')) \<noteq> []"
    by (rule iterationBody_Continue)
qed

theorem buildPrompt_feedback_witness:
  "(1::int) < 2
   \<and> iterationBody (sampleWorld (\<lambda>i. ErrorTypeSyntax)) 1 (sampleRun []) =
       (Continue, snd (iterationBody (sampleWorld (\<lambda>i. ErrorTypeSyntax)) 1 (sampleRun [])))
   \<and> ErrorHistory (LLMCtx (job (snd (iterationBody (sampleWorld (\<lambda>i. ErrorTypeSyntax)) 1
         (sampleRun []))))) \<noteq> []
   \<and> fst (buildPrompt (job (snd (iterationBody (sampleWorld (\<lambda>i. ErrorTypeSyntax)) 1
         (sampleRun [])))) 2) =
       ''write a function that doubles an integer'' @ goFormatInstructions
       @ ''\<newline>\<newline>=== ERROR FEEDBACK FROM ITERATION 1 ===\<newline>''
       @ ''Error Type: syntax\<newline>''
       @ ''Error Message: main.go:3:1: broken\<newline>''
       @ ''Please fix the error and regenerate the code.\<newline>''
   \<and> fst (buildPrompt sampleJob 1) =
       ''write a function that doubles an integer'' @ goFormatInstructions"
proof -
  have 0: "fst (iterationBody (sampleWorld (\<lambda>i. ErrorTypeSyntax)) 1 (sampleRun [])) = Continue"
    by code_simp
  have 1: "ErrorHistory (LLMCtx (job (snd (iterationBody (sampleWorld (\<lambda>i. ErrorTypeSyntax)) 1
         (sampleRun []))))) \<noteq> []"
    by code_simp
  have 2: "itoa 1 = ''1''" by code_simp
  have 3: "LastErrorMessage (LLMCtx (job (snd (iterationBody
         (sampleWorld (\<lambda>i. ErrorTypeSyntax)) 1 (sampleRun []))))) = ''main.go:3:1: broken''"
    by code_simp
  have 4: "LastErrorType (Metrics (job (snd (iterationBody
         (sampleWorld (\<lambda>i. ErrorTypeSyntax)) 1 (sampleRun []))))) = ErrorTypeSyntax"
    by code_simp
  have 5: "UserPrompt (job (snd (iterationBody
         (sampleWorld (\<lambda>i. ErrorTypeSyntax)) 1 (sampleRun [])))) =
       ''write a function that doubles an integer''"
    and 6: "Language (job (snd (iterationBody
         (sampleWorld (\<lambda>i. ErrorTypeSyntax)) 1 (sampleRun [])))) = ''go''"
    by code_simp+
  have 7: "UserPrompt sampleJob = ''write a function that doubles an integer''"
    and 8: "Language sampleJob = ''go''"
    by (simp_all add: sampleJob_def)
  have 9: "iterationBody (sampleWorld (\<lambda>i. ErrorTypeSyntax)) 1 (sampleRun []) =
       (Continue, snd (iterationBody (sampleWorld (\<lambda>i. ErrorTypeSyntax)) 1 (sampleRun [])))"
    using 0 by (metis prod.collapse)
  show ?thesis
    using buildPrompt_feedback
      [of 2 "job (snd (iterationBody (sampleWorld (\<lambda>i. ErrorTypeSyntax)) 1 (sampleRun [])))"]
      buildPrompt_feedback [of 1 sampleJob] 1 9
    by (simp add: 2 3 4 5 6 7 8 formatInstructions_def)
qed

end
